theory Spec2Isabelle
  imports Main
begin

section \<open>CodeCollab: authentication, validation and snippet access\<close>

text \<open>
  A shallow embedding of the backend's authentication and ownership code:
  \<^item> \<^verbatim>\<open>schemas/authSchema.ts\<close> (the Zod schema of the registration input),
  \<^item> \<^verbatim>\<open>middleware/validation.ts\<close> (formatting of Zod issues),
  \<^item> \<^verbatim>\<open>services/authService.ts\<close> (registerUser, loginUser, verifyToken, getUserProfile),
  \<^item> \<^verbatim>\<open>middleware/auth.ts\<close> (authenticateToken, optionalAuth),
  \<^item> \<^verbatim>\<open>services/snippetService.ts\<close> (listing, fetch, update and delete of snippets),
  \<^item> \<^verbatim>\<open>prisma/schema.prisma\<close> (columns, defaults, unique indexes, \<^verbatim>\<open>@updatedAt\<close>).

  JavaScript strings are modelled as \<^typ>\<open>string\<close>; a character stands for the code unit
  of the same number (U+0000 to U+00FF). The Portuguese messages of the source are written
  without their diacritics, since string literals are ASCII.
\<close>

subsection \<open>JavaScript string operations\<close>

definition code_unit :: "char \<Rightarrow> nat" where
  "code_unit c = of_char c"

text \<open>\<^verbatim>\<open>String.prototype.toLowerCase\<close> on the code units U+0000 to U+00FF: the letters A to Z
  and the Latin-1 capitals U+00C0 to U+00DE (without the multiplication sign U+00D7) move up
  by 32.\<close>

definition toLowerCase_char :: "char \<Rightarrow> char" where
  "toLowerCase_char c =
     (let n = code_unit c
      in if (65 \<le> n \<and> n \<le> 90) \<or> (192 \<le> n \<and> n \<le> 222 \<and> n \<noteq> 215)
         then char_of (n + 32) else c)"

definition toLowerCase :: "string \<Rightarrow> string" where
  "toLowerCase s = map toLowerCase_char s"

text \<open>\<^verbatim>\<open>String.prototype.trim\<close> removes white space and line terminators from both ends; among
  the code units up to U+00FF these are TAB, LF, VT, FF, CR, SPACE and NBSP.\<close>

definition is_js_space :: "char \<Rightarrow> bool" where
  "is_js_space c = (code_unit c \<in> {9, 10, 11, 12, 13, 32, 160})"

definition trim :: "string \<Rightarrow> string" where
  "trim s = rev (dropWhile is_js_space (rev (dropWhile is_js_space s)))"

text \<open>\<^verbatim>\<open>s.startsWith(p)\<close> and \<^verbatim>\<open>s.substring(n)\<close>.\<close>

definition startsWith :: "string \<Rightarrow> string \<Rightarrow> bool" where
  "startsWith s p = (take (length p) s = p)"

definition substring :: "string \<Rightarrow> nat \<Rightarrow> string" where
  "substring s n = drop n s"

subsection \<open>The registration schema: the username field\<close>

text \<open>
  \<^verbatim>\<open>
  username: z
    .string({ message: 'Nome de usuario deve ser uma string' })
    .min(3, { message: 'Nome de usuario deve ter no minimo 3 caracteres' })
    .max(30, { message: 'Nome de usuario deve ter no maximo 30 caracteres' })
    .regex(/^[a-zA-Z0-9_]+$/, { message: '... apenas letras, numeros e underscore' })
    .toLowerCase()
    .trim(),
  \<close>
  A Zod issue carries the path of the field and a message. A value that is not a string
  fails the type check and nothing else runs; on a string the three checks run in the
  order written, each failing check adds its issue, and the two overwrites produce the
  output when no issue was raised.
\<close>

record issue =
  path :: "string list"
  issue_message :: string

definition mk_issue :: "string \<Rightarrow> string \<Rightarrow> issue" where
  "mk_issue f m = \<lparr>path = [f], issue_message = m\<rparr>"

text \<open>The character class \<^verbatim>\<open>[a-zA-Z0-9_]\<close>.\<close>

definition username_char :: "char \<Rightarrow> bool" where
  "username_char c =
     (let n = code_unit c
      in (97 \<le> n \<and> n \<le> 122) \<or> (65 \<le> n \<and> n \<le> 90) \<or> (48 \<le> n \<and> n \<le> 57) \<or> n = 95)"

text \<open>The regular expression \<^verbatim>\<open>/^[a-zA-Z0-9_]+$/\<close> (no flags: the anchors are the two ends
  of the input).\<close>

definition username_regex :: "string \<Rightarrow> bool" where
  "username_regex s = (s \<noteq> [] \<and> list_all username_char s)"

definition username_issues :: "string \<Rightarrow> issue list" where
  "username_issues s =
     (if length s < 3
      then [mk_issue ''username'' ''Nome de usuario deve ter no minimo 3 caracteres'']
      else [])
     @ (if length s > 30
        then [mk_issue ''username'' ''Nome de usuario deve ter no maximo 30 caracteres'']
        else [])
     @ (if \<not> username_regex s
        then [mk_issue ''username''
                ''Nome de usuario pode conter apenas letras, numeros e underscore'']
        else [])"

text \<open>The input is \<open>None\<close> when the field is absent or not a string.\<close>

definition registerSchema_username :: "string option \<Rightarrow> issue list + string" where
  "registerSchema_username v =
     (case v of
        None \<Rightarrow> Inl [mk_issue ''username'' ''Nome de usuario deve ser uma string'']
      | Some s \<Rightarrow>
          (if username_issues s = [] then Inr (trim (toLowerCase s))
           else Inl (username_issues s)))"

text \<open>
  \<^verbatim>\<open>validateSchema\<close> (middleware/validation.ts) answers a \<^verbatim>\<open>ZodError\<close> with status 400 and
  \<^verbatim>\<open>details: error.issues.map(err => ({field: err.path.join('.'), message: err.message}))\<close>.
\<close>

record formatted_error =
  field :: string
  message :: string

fun join :: "string list \<Rightarrow> string \<Rightarrow> string" where
  "join [] sep = []"
| "join [x] sep = x"
| "join (x # y # ys) sep = x @ sep @ join (y # ys) sep"

definition formattedErrors :: "issue list \<Rightarrow> formatted_error list" where
  "formattedErrors issues =
     map (\<lambda>err. \<lparr>field = join (path err) ''.'', message = issue_message err\<rparr>) issues"

text \<open>The outcome of the username field under \<^verbatim>\<open>validateSchema(registerSchema)\<close>: the
  status 400 with the formatted details, or the sanitised value.\<close>

definition validate_username :: "string option \<Rightarrow> (nat \<times> formatted_error list) + string" where
  "validate_username v =
     (case registerSchema_username v of
        Inl issues \<Rightarrow> Inl (400, formattedErrors issues)
      | Inr out \<Rightarrow> Inr out)"

text \<open>The username contract in the words of the specification: 3 to 50 characters matching
  \<^verbatim>\<open>^[a-zA-Z0-9_-]+$\<close>.\<close>

definition spec_username_char :: "char \<Rightarrow> bool" where
  "spec_username_char c = (username_char c \<or> c = CHR ''-'')"

definition spec_username_ok :: "string \<Rightarrow> bool" where
  "spec_username_ok s =
     (3 \<le> length s \<and> length s \<le> 50 \<and> s \<noteq> [] \<and> list_all spec_username_char s)"

definition accepted :: "'e + 'a \<Rightarrow> bool" where
  "accepted r = (case r of Inl _ \<Rightarrow> False | Inr _ \<Rightarrow> True)"

subsection \<open>Errors and JavaScript objects\<close>

text \<open>
  The values the code throws. \<open>AuthError\<close> and \<open>SnippetError\<close> are the two error classes
  of the services, each with a message and a \<^verbatim>\<open>statusCode\<close>. A store call rejects with a
  unique-index violation (Prisma's \<^verbatim>\<open>P2002\<close>, naming the column), with a missing record
  (\<^verbatim>\<open>P2025\<close>), with a value outside the range of its column (\<^verbatim>\<open>P2020\<close>) or for a reason
  outside the program (\<open>StoreFailure\<close>: the connection is lost, a query is rejected).
  \<^verbatim>\<open>jwt.verify\<close> throws one of the three error classes of the \<^verbatim>\<open>jsonwebtoken\<close> package.
\<close>

datatype js_error =
    AuthError string nat
  | SnippetError string nat
  | PrismaUniqueViolation string
  | PrismaNotFound
  | PrismaValueOutOfRange
  | StoreFailure
  | JsonWebTokenError string
  | TokenExpiredError string
  | NotBeforeError string

definition instanceof_AuthError :: "js_error \<Rightarrow> bool" where
  "instanceof_AuthError e = (case e of AuthError _ _ \<Rightarrow> True | _ \<Rightarrow> False)"

definition instanceof_SnippetError :: "js_error \<Rightarrow> bool" where
  "instanceof_SnippetError e = (case e of SnippetError _ _ \<Rightarrow> True | _ \<Rightarrow> False)"

text \<open>In \<^verbatim>\<open>jsonwebtoken\<close> (and in \<^verbatim>\<open>@types/jsonwebtoken\<close>, which the backend depends on)
  \<^verbatim>\<open>class TokenExpiredError extends JsonWebTokenError\<close> and
  \<^verbatim>\<open>class NotBeforeError extends JsonWebTokenError\<close>: an instance of either subclass is an
  instance of \<^verbatim>\<open>JsonWebTokenError\<close>.\<close>

definition instanceof_JsonWebTokenError :: "js_error \<Rightarrow> bool" where
  "instanceof_JsonWebTokenError e =
     (case e of JsonWebTokenError _ \<Rightarrow> True | TokenExpiredError _ \<Rightarrow> True
      | NotBeforeError _ \<Rightarrow> True | _ \<Rightarrow> False)"

definition instanceof_TokenExpiredError :: "js_error \<Rightarrow> bool" where
  "instanceof_TokenExpiredError e = (case e of TokenExpiredError _ \<Rightarrow> True | _ \<Rightarrow> False)"

text \<open>An object returned to a caller is a map from property names to values; a date is the
  number of its milliseconds.\<close>

datatype jsval = JString string | JNumber int | JDate nat | JBool bool | JNull

type_synonym obj = "string \<rightharpoonup> jsval"

definition nullable :: "string option \<Rightarrow> jsval" where
  "nullable v = (case v of None \<Rightarrow> JNull | Some s \<Rightarrow> JString s)"

text \<open>Prisma's \<^verbatim>\<open>select: {k1: true, ...}\<close> keeps the listed columns of a row.\<close>

definition prisma_select :: "string list \<Rightarrow> obj \<Rightarrow> obj" where
  "prisma_select keys row = (\<lambda>k. if k \<in> set keys then row k else None)"

text \<open>\<^verbatim>\<open>const { password: _, ...userWithoutPassword } = user\<close>: the rest of the object.\<close>

definition without_property :: "string \<Rightarrow> obj \<Rightarrow> obj" where
  "without_property k ob = ob(k := None)"

text \<open>\<^verbatim>\<open>x || null\<close> on an optional string: the empty string is falsy.\<close>

definition or_null :: "string option \<Rightarrow> string option" where
  "or_null v = (case v of None \<Rightarrow> None | Some s \<Rightarrow> if s = [] then None else Some s)"

text \<open>Truthiness of an optional string (\<^verbatim>\<open>if (x)\<close>, \<^verbatim>\<open>!x\<close>, \<^verbatim>\<open>x && ...\<close>).\<close>

definition truthy :: "string option \<Rightarrow> bool" where
  "truthy v = (case v of None \<Rightarrow> False | Some s \<Rightarrow> s \<noteq> [])"

subsection \<open>The store (prisma/schema.prisma)\<close>

text \<open>The tables the two services use. Dates are numbers of milliseconds. Of a badge only
  the columns the service reads are kept; relations are held by their foreign-key columns,
  and the services only refer to rows they have just read or created.\<close>

text \<open>A column of type \<^verbatim>\<open>Int\<close> is a 32-bit \<^verbatim>\<open>INTEGER\<close> of the database: the store rejects
  a write that would leave this range.\<close>

definition int32 :: "int \<Rightarrow> bool" where
  "int32 v = (- 2147483648 \<le> v \<and> v \<le> 2147483647)"

record user =
  uid :: string
  email :: string
  username :: string
  password :: string
  firstName :: "string option"
  lastName :: "string option"
  avatar :: "string option"
  bio :: "string option"
  points :: int
  level :: int
  user_createdAt :: nat
  user_updatedAt :: nat

datatype transactionType = EARNED | SPENT | BONUS | PENALTY

record pointTransaction =
  pt_id :: string
  amount :: int
  reason :: string
  pt_type :: transactionType
  pt_createdAt :: nat
  pt_userId :: string

record badge =
  badge_id :: string
  badge_name :: string

record userBadge =
  ub_id :: string
  earnedAt :: nat
  ub_userId :: string
  ub_badgeId :: string

record snippet =
  sid :: string
  title :: string
  description :: "string option"
  content :: string
  language :: string
  tags :: "string list"
  isPublic :: bool
  views :: int
  likes :: int
  createdAt :: nat
  updatedAt :: nat
  authorId :: string

text \<open>The tables, and the lines written by \<^verbatim>\<open>console.error\<close> and \<^verbatim>\<open>console.log\<close>.\<close>

record world =
  users :: "user list"
  pointTransactions :: "pointTransaction list"
  badges :: "badge list"
  userBadges :: "userBadge list"
  snippets :: "snippet list"
  console :: "string list"

definition log :: "string \<Rightarrow> world \<Rightarrow> world" where
  "log line w = w\<lparr>console := console w @ [line]\<rparr>"

text \<open>The row of a user as an object with all twelve columns.\<close>

definition user_row :: "user \<Rightarrow> obj" where
  "user_row u =
     [''id'' \<mapsto> JString (uid u),
      ''email'' \<mapsto> JString (email u),
      ''username'' \<mapsto> JString (username u),
      ''password'' \<mapsto> JString (password u),
      ''firstName'' \<mapsto> nullable (firstName u),
      ''lastName'' \<mapsto> nullable (lastName u),
      ''avatar'' \<mapsto> nullable (avatar u),
      ''bio'' \<mapsto> nullable (bio u),
      ''points'' \<mapsto> JNumber (points u),
      ''level'' \<mapsto> JNumber (level u),
      ''createdAt'' \<mapsto> JDate (user_createdAt u),
      ''updatedAt'' \<mapsto> JDate (user_updatedAt u)]"

text \<open>
  What a call does not decide by itself is read from an environment: which store calls
  reject for an outside reason, the clock, the ids drawn by \<^verbatim>\<open>@default(cuid())\<close>, the rows
  that other requests commit while this one is suspended between its uniqueness checks and
  its insert, and the functions of the \<^verbatim>\<open>bcryptjs\<close> and \<^verbatim>\<open>jsonwebtoken\<close> packages (with the
  salt drawn and the configured secret).
\<close>

datatype call =
    UserFindUniqueByEmail | UserFindUniqueByUsername | UserFindUniqueById
  | UserCreate | UserUpdate | PointTransactionCreate
  | BadgeFindUnique | UserBadgeFindUnique | UserBadgeCreate
  | SnippetFindUnique | SnippetFindMany | SnippetCount | SnippetUpdate | SnippetDelete

record signOptions =
  expiresIn :: string
  issuer :: string
  subject :: string

record env =
  fails :: "call \<Rightarrow> bool"
  now :: nat
  cuid :: "call \<Rightarrow> string"
  concurrent_users :: "user list"
  bcrypt_hash :: "string \<Rightarrow> nat \<Rightarrow> string"
  bcrypt_compare :: "string \<Rightarrow> string \<Rightarrow> bool"
  jwt_sign :: "obj \<Rightarrow> signOptions \<Rightarrow> string"
  jwt_verify :: "string \<Rightarrow> js_error + obj"

subsubsection \<open>Store calls on users, point transactions and badges\<close>

definition user_findUnique_email :: "world \<Rightarrow> string \<Rightarrow> user option" where
  "user_findUnique_email w e = find (\<lambda>u. email u = e) (users w)"

definition user_findUnique_username :: "world \<Rightarrow> string \<Rightarrow> user option" where
  "user_findUnique_username w n = find (\<lambda>u. username u = n) (users w)"

definition user_findUnique_id :: "world \<Rightarrow> string \<Rightarrow> user option" where
  "user_findUnique_id w i = find (\<lambda>u. uid u = i) (users w)"

text \<open>\<^verbatim>\<open>prisma.user.create\<close>: the columns not given take their defaults (\<^verbatim>\<open>cuid()\<close>, null,
  \<^verbatim>\<open>points 0\<close>, \<^verbatim>\<open>level 1\<close>, \<^verbatim>\<open>now()\<close>); the primary key and the two \<^verbatim>\<open>@unique\<close> columns
  reject a duplicate.\<close>

definition user_create ::
  "env \<Rightarrow> world \<Rightarrow> string \<Rightarrow> string \<Rightarrow> string \<Rightarrow> string option \<Rightarrow> string option
     \<Rightarrow> js_error + (user \<times> world)" where
  "user_create ev w em un pw fn ln =
     (if fails ev UserCreate then Inl StoreFailure
      else if user_findUnique_id w (cuid ev UserCreate) \<noteq> None
        then Inl (PrismaUniqueViolation ''id'')
      else if user_findUnique_email w em \<noteq> None then Inl (PrismaUniqueViolation ''email'')
      else if user_findUnique_username w un \<noteq> None
        then Inl (PrismaUniqueViolation ''username'')
      else
        (let u = \<lparr>uid = cuid ev UserCreate, email = em, username = un, password = pw,
                  firstName = fn, lastName = ln, avatar = None, bio = None,
                  points = 0, level = 1,
                  user_createdAt = now ev, user_updatedAt = now ev\<rparr>
         in Inr (u, w\<lparr>users := users w @ [u]\<rparr>)))"

text \<open>\<^verbatim>\<open>prisma.user.update({where: {id}, data: {points: {increment: n}}})\<close>; the column
  \<^verbatim>\<open>updatedAt\<close> is declared \<^verbatim>\<open>@updatedAt\<close>, so the store sets it on every update, and
  \<^verbatim>\<open>points\<close> is an \<^verbatim>\<open>Int\<close>.\<close>

definition user_update_points :: "env \<Rightarrow> world \<Rightarrow> string \<Rightarrow> int \<Rightarrow> js_error + world" where
  "user_update_points ev w i n =
     (if fails ev UserUpdate then Inl StoreFailure
      else
        (case user_findUnique_id w i of
           None \<Rightarrow> Inl PrismaNotFound
         | Some old \<Rightarrow>
             (if \<not> int32 (points old + n) then Inl PrismaValueOutOfRange
              else Inr (w\<lparr>users :=
                          map (\<lambda>u. if uid u = i
                                    then u\<lparr>points := points u + n, user_updatedAt := now ev\<rparr>
                                    else u) (users w)\<rparr>))))"

definition pointTransaction_create ::
  "env \<Rightarrow> world \<Rightarrow> string \<Rightarrow> int \<Rightarrow> string \<Rightarrow> transactionType \<Rightarrow> js_error + world" where
  "pointTransaction_create ev w userId a r t =
     (if fails ev PointTransactionCreate then Inl StoreFailure
      else Inr (w\<lparr>pointTransactions := pointTransactions w @
                  [\<lparr>pt_id = cuid ev PointTransactionCreate, amount = a, reason = r,
                    pt_type = t, pt_createdAt = now ev, pt_userId = userId\<rparr>]\<rparr>))"

definition badge_findUnique_name :: "world \<Rightarrow> string \<Rightarrow> badge option" where
  "badge_findUnique_name w n = find (\<lambda>b. badge_name b = n) (badges w)"

definition userBadge_findUnique :: "world \<Rightarrow> string \<Rightarrow> string \<Rightarrow> userBadge option" where
  "userBadge_findUnique w userId badgeId =
     find (\<lambda>ub. ub_userId ub = userId \<and> ub_badgeId ub = badgeId) (userBadges w)"

definition userBadge_create :: "env \<Rightarrow> world \<Rightarrow> string \<Rightarrow> string \<Rightarrow> js_error + world" where
  "userBadge_create ev w userId badgeId =
     (if fails ev UserBadgeCreate then Inl StoreFailure
      else if userBadge_findUnique w userId badgeId \<noteq> None
        then Inl (PrismaUniqueViolation ''userId_badgeId'')
      else Inr (w\<lparr>userBadges := userBadges w @
                  [\<lparr>ub_id = cuid ev UserBadgeCreate, earnedAt = now ev,
                    ub_userId = userId, ub_badgeId = badgeId\<rparr>]\<rparr>))"

subsection \<open>The authentication service (services/authService.ts)\<close>

text \<open>The columns of \<^verbatim>\<open>UserResponse\<close>, selected by every read of the service but the one
  of \<^verbatim>\<open>loginUser\<close>, which also selects \<^verbatim>\<open>password\<close>.\<close>

definition userSelect :: "string list" where
  "userSelect = [''id'', ''email'', ''username'', ''firstName'', ''lastName'', ''avatar'',
                 ''bio'', ''points'', ''level'', ''createdAt'', ''updatedAt'']"

definition loginSelect :: "string list" where
  "loginSelect = [''id'', ''email'', ''username'', ''password'', ''firstName'', ''lastName'',
                  ''avatar'', ''bio'', ''points'', ''level'', ''createdAt'', ''updatedAt'']"

record registerInput =
  ri_email :: string
  ri_password :: string
  ri_username :: string
  ri_firstName :: "string option"
  ri_lastName :: "string option"

record loginInput =
  li_email :: string
  li_password :: string

record loginResponse =
  token :: string
  user :: obj

text \<open>
  \<^verbatim>\<open>awardWelcomeBadge\<close> wraps its three store calls in a \<^verbatim>\<open>try\<close> whose \<^verbatim>\<open>catch\<close> only writes
  to the console (\<^verbatim>\<open>// Don't throw error for badge awarding failure\<close>): it never rejects.
\<close>

definition awardWelcomeBadge :: "env \<Rightarrow> world \<Rightarrow> string \<Rightarrow> world" where
  "awardWelcomeBadge ev w userId =
     (if fails ev BadgeFindUnique then log ''Error awarding welcome badge:'' w
      else
        (case badge_findUnique_name w ''Community Member'' of
           None \<Rightarrow> w
         | Some communityBadge \<Rightarrow>
             (if fails ev UserBadgeFindUnique then log ''Error awarding welcome badge:'' w
              else
                (case userBadge_findUnique w userId (badge_id communityBadge) of
                   Some existingUserBadge \<Rightarrow> w
                 | None \<Rightarrow>
                     (case userBadge_create ev w userId (badge_id communityBadge) of
                        Inl e \<Rightarrow> log ''Error awarding welcome badge:'' w
                      | Inr w' \<Rightarrow> w')))))"

text \<open>
  \<^verbatim>\<open>await Promise.all([pointTransaction.create(..), user.update(..), awardWelcomeBadge(..)])\<close>:
  the three operations are all started, each on its own table or column; the combined
  promise rejects when one of them rejects, with the reason of the first in the list that
  did (the \<^verbatim>\<open>catch\<close> of the caller treats every reason alike).
\<close>

definition welcome_bonus :: "env \<Rightarrow> world \<Rightarrow> string \<Rightarrow> js_error option \<times> world" where
  "welcome_bonus ev w userId =
     (let (r1, w1) =
            (case pointTransaction_create ev w userId 10
                    ''Bonus de boas-vindas ao CodeCollab'' BONUS of
               Inl e \<Rightarrow> (Some e, w) | Inr w' \<Rightarrow> (None, w'));
          (r2, w2) =
            (case user_update_points ev w1 userId 10 of
               Inl e \<Rightarrow> (Some e, w1) | Inr w' \<Rightarrow> (None, w'));
          w3 = awardWelcomeBadge ev w2 userId
      in (case r1 of Some e \<Rightarrow> (Some e, w3) | None \<Rightarrow> (r2, w3)))"

text \<open>The body of the \<^verbatim>\<open>try\<close> of \<^verbatim>\<open>registerUser\<close>. The rows of \<open>concurrent_users\<close> are
  committed by other requests after the two checks and before the insert.\<close>

definition registerUser_try :: "env \<Rightarrow> world \<Rightarrow> registerInput \<Rightarrow> (js_error + obj) \<times> world" where
  "registerUser_try ev w userData =
     (if fails ev UserFindUniqueByEmail then (Inl StoreFailure, w)
      else if user_findUnique_email w (ri_email userData) \<noteq> None
        then (Inl (AuthError ''Usuario com este email ja existe'' 409), w)
      else if fails ev UserFindUniqueByUsername then (Inl StoreFailure, w)
      else if user_findUnique_username w (ri_username userData) \<noteq> None
        then (Inl (AuthError ''Nome de usuario ja esta em uso'' 409), w)
      else
        (let saltRounds = 12;
             hashedPassword = bcrypt_hash ev (ri_password userData) saltRounds;
             w1 = w\<lparr>users := users w @ concurrent_users ev\<rparr>
         in case user_create ev w1 (ri_email userData) (ri_username userData) hashedPassword
                   (or_null (ri_firstName userData)) (or_null (ri_lastName userData)) of
              Inl e \<Rightarrow> (Inl e, w1)
            | Inr (created, w2) \<Rightarrow>
                (let newUser = prisma_select userSelect (user_row created)
                 in case welcome_bonus ev w2 (uid created) of
                      (Some e, w3) \<Rightarrow> (Inl e, w3)
                    | (None, w3) \<Rightarrow> (Inr newUser, w3))))"

text \<open>\<^verbatim>\<open>catch (error) { if (error instanceof AuthError) throw error; console.error(..);
  throw new AuthError('Erro interno do servidor ao registrar usuario', 500) }\<close>\<close>

definition registerUser :: "env \<Rightarrow> world \<Rightarrow> registerInput \<Rightarrow> (js_error + obj) \<times> world" where
  "registerUser ev w userData =
     (case registerUser_try ev w userData of
        (Inr newUser, w') \<Rightarrow> (Inr newUser, w')
      | (Inl error, w') \<Rightarrow>
          (if instanceof_AuthError error then (Inl error, w')
           else (Inl (AuthError ''Erro interno do servidor ao registrar usuario'' 500),
                 log ''Error registering user:'' w')))"

definition loginUser_try :: "env \<Rightarrow> world \<Rightarrow> loginInput \<Rightarrow> js_error + loginResponse" where
  "loginUser_try ev w loginData =
     (if fails ev UserFindUniqueByEmail then Inl StoreFailure
      else
        (case user_findUnique_email w (li_email loginData) of
           None \<Rightarrow> Inl (AuthError ''Credenciais invalidas'' 401)
         | Some found \<Rightarrow>
             (let user = prisma_select loginSelect (user_row found);
                  isPasswordValid = bcrypt_compare ev (li_password loginData) (password found)
              in if \<not> isPasswordValid then Inl (AuthError ''Credenciais invalidas'' 401)
                 else
                   (let tokenPayload = [''id'' \<mapsto> JString (uid found),
                                        ''email'' \<mapsto> JString (email found),
                                        ''username'' \<mapsto> JString (username found)];
                        signOptions = \<lparr>expiresIn = ''1h'', issuer = ''codecollab-api'',
                                       subject = uid found\<rparr>;
                        token = jwt_sign ev tokenPayload signOptions;
                        userWithoutPassword = without_property ''password'' user
                    in Inr \<lparr>token = token, user = userWithoutPassword\<rparr>))))"

definition loginUser :: "env \<Rightarrow> world \<Rightarrow> loginInput \<Rightarrow> (js_error + loginResponse) \<times> world" where
  "loginUser ev w loginData =
     (case loginUser_try ev w loginData of
        Inr r \<Rightarrow> (Inr r, w)
      | Inl error \<Rightarrow>
          (if instanceof_AuthError error then (Inl error, w)
           else (Inl (AuthError ''Erro interno do servidor durante login'' 500),
                 log ''Error during login:'' w)))"

text \<open>\<^verbatim>\<open>decoded.id\<close> of a verified payload; a payload without a string \<^verbatim>\<open>id\<close> makes the
  lookup reject.\<close>

definition verifyToken_try :: "env \<Rightarrow> world \<Rightarrow> string \<Rightarrow> js_error + obj" where
  "verifyToken_try ev w tok =
     (case jwt_verify ev tok of
        Inl e \<Rightarrow> Inl e
      | Inr decoded \<Rightarrow>
          (case decoded ''id'' of
             Some (JString i) \<Rightarrow>
               (if fails ev UserFindUniqueById then Inl StoreFailure
                else
                  (case user_findUnique_id w i of
                     None \<Rightarrow> Inl (AuthError ''Usuario nao encontrado'' 404)
                   | Some found \<Rightarrow> Inr (prisma_select userSelect (user_row found))))
           | _ \<Rightarrow> Inl StoreFailure))"

text \<open>The \<^verbatim>\<open>catch\<close> of \<^verbatim>\<open>verifyToken\<close> tests \<^verbatim>\<open>instanceof jwt.JsonWebTokenError\<close> first, then
  \<^verbatim>\<open>instanceof jwt.TokenExpiredError\<close>, then \<^verbatim>\<open>instanceof AuthError\<close>.\<close>

definition verifyToken :: "env \<Rightarrow> world \<Rightarrow> string \<Rightarrow> (js_error + obj) \<times> world" where
  "verifyToken ev w tok =
     (case verifyToken_try ev w tok of
        Inr u \<Rightarrow> (Inr u, w)
      | Inl error \<Rightarrow>
          (if instanceof_JsonWebTokenError error then (Inl (AuthError ''Token invalido'' 401), w)
           else if instanceof_TokenExpiredError error
             then (Inl (AuthError ''Token expirado'' 401), w)
           else if instanceof_AuthError error then (Inl error, w)
           else (Inl (AuthError ''Erro interno do servidor ao verificar token'' 500),
                 log ''Error verifying token:'' w)))"

definition getUserProfile_try :: "env \<Rightarrow> world \<Rightarrow> string \<Rightarrow> js_error + obj" where
  "getUserProfile_try ev w userId =
     (if fails ev UserFindUniqueById then Inl StoreFailure
      else
        (case user_findUnique_id w userId of
           None \<Rightarrow> Inl (AuthError ''Usuario nao encontrado'' 404)
         | Some found \<Rightarrow> Inr (prisma_select userSelect (user_row found))))"

definition getUserProfile :: "env \<Rightarrow> world \<Rightarrow> string \<Rightarrow> (js_error + obj) \<times> world" where
  "getUserProfile ev w userId =
     (case getUserProfile_try ev w userId of
        Inr u \<Rightarrow> (Inr u, w)
      | Inl error \<Rightarrow>
          (if instanceof_AuthError error then (Inl error, w)
           else (Inl (AuthError ''Erro interno do servidor ao buscar perfil'' 500),
                 log ''Error getting user profile:'' w)))"

subsection \<open>The access middleware (middleware/auth.ts)\<close>

text \<open>A middleware either answers the request itself (status and the \<^verbatim>\<open>error\<close> and
  \<^verbatim>\<open>message\<close> of the JSON body, \<^verbatim>\<open>success: false\<close>) or calls \<^verbatim>\<open>next()\<close>, with \<^verbatim>\<open>req.user\<close> set
  to the decoded payload or left absent.\<close>

record response =
  status :: nat
  res_error :: string
  res_message :: string

datatype outcome = Responded response | Next "obj option"

text \<open>\<^verbatim>\<open>authHeader.startsWith('Bearer ') ? authHeader.substring(7) : authHeader\<close>\<close>

definition extract_token :: "string \<Rightarrow> string" where
  "extract_token authHeader =
     (if startsWith authHeader ''Bearer '' then substring authHeader 7 else authHeader)"

definition authenticateToken :: "env \<Rightarrow> string option \<Rightarrow> outcome" where
  "authenticateToken ev authorization =
     (case authorization of
        None \<Rightarrow> Responded \<lparr>status = 401, res_error = ''Token de acesso necessario'',
                            res_message = ''Authorization header nao fornecido''\<rparr>
      | Some authHeader \<Rightarrow>
          (if authHeader = []
           then Responded \<lparr>status = 401, res_error = ''Token de acesso necessario'',
                           res_message = ''Authorization header nao fornecido''\<rparr>
           else
             (let token = extract_token authHeader
              in if token = []
                 then Responded \<lparr>status = 401, res_error = ''Token de acesso necessario'',
                                 res_message = ''Token nao fornecido''\<rparr>
                 else
                   (case jwt_verify ev token of
                      Inr decoded \<Rightarrow> Next (Some decoded)
                    | Inl error \<Rightarrow>
                        (if instanceof_JsonWebTokenError error
                         then Responded \<lparr>status = 401, res_error = ''Token invalido'',
                                  res_message = ''Token JWT invalido ou malformado''\<rparr>
                         else if instanceof_TokenExpiredError error
                         then Responded \<lparr>status = 401, res_error = ''Token expirado'',
                                  res_message = ''Token JWT expirado''\<rparr>
                         else Responded \<lparr>status = 500, res_error = ''Erro interno do servidor'',
                                  res_message = ''Erro durante autenticacao''\<rparr>)))))"

definition optionalAuth :: "env \<Rightarrow> string option \<Rightarrow> outcome" where
  "optionalAuth ev authorization =
     (case authorization of
        None \<Rightarrow> Next None
      | Some authHeader \<Rightarrow>
          (if authHeader = [] then Next None
           else
             (let token = extract_token authHeader
              in if token = [] then Next None
                 else
                   (case jwt_verify ev token of
                      Inr decoded \<Rightarrow> Next (Some decoded)
                    | Inl tokenError \<Rightarrow> Next None))))"

subsection \<open>The snippet service (services/snippetService.ts)\<close>

text \<open>The rows joined in by \<^verbatim>\<open>include\<close> (the author, the reviews and their count) are left
  out of the returned values: they are read-only projections of other tables.\<close>

definition snippet_findUnique :: "world \<Rightarrow> string \<Rightarrow> snippet option" where
  "snippet_findUnique w i = find (\<lambda>s. sid s = i) (snippets w)"

text \<open>\<^verbatim>\<open>prisma.snippet.update({where: {id}, data})\<close>: the row with the id gets the time of the
  update in its \<^verbatim>\<open>@updatedAt\<close> column and then the changes of \<^verbatim>\<open>data\<close>; the call rejects
  when no row has the id, and when the changed row would hold a view counter outside the
  range of its \<^verbatim>\<open>Int\<close> column (an increment at 2147483647).\<close>

definition snippet_update ::
  "env \<Rightarrow> world \<Rightarrow> string \<Rightarrow> (snippet \<Rightarrow> snippet) \<Rightarrow> js_error + world" where
  "snippet_update ev w i change =
     (if fails ev SnippetUpdate then Inl StoreFailure
      else
        (case snippet_findUnique w i of
           None \<Rightarrow> Inl PrismaNotFound
         | Some old \<Rightarrow>
             (if \<not> int32 (views (change (old\<lparr>updatedAt := now ev\<rparr>)))
              then Inl PrismaValueOutOfRange
              else Inr (w\<lparr>snippets :=
                          map (\<lambda>t. if sid t = i then change (t\<lparr>updatedAt := now ev\<rparr>) else t)
                            (snippets w)\<rparr>))))"

definition snippet_delete :: "env \<Rightarrow> world \<Rightarrow> string \<Rightarrow> js_error + world" where
  "snippet_delete ev w i =
     (if fails ev SnippetDelete then Inl StoreFailure
      else if snippet_findUnique w i = None then Inl PrismaNotFound
      else Inr (w\<lparr>snippets := filter (\<lambda>t. sid t \<noteq> i) (snippets w)\<rparr>))"

text \<open>\<^verbatim>\<open>catch (error) { if (error instanceof SnippetError) throw error; console.error(..);
  throw new SnippetError(message, 500) }\<close>, shared by the fetch, the update and the delete.\<close>

definition snippet_catch ::
  "string \<Rightarrow> string \<Rightarrow> (js_error + 'a) \<times> world \<Rightarrow> (js_error + 'a) \<times> world" where
  "snippet_catch logged msg r =
     (case r of
        (Inr v, w) \<Rightarrow> (Inr v, w)
      | (Inl error, w) \<Rightarrow>
          (if instanceof_SnippetError error then (Inl error, w)
           else (Inl (SnippetError msg 500), log logged w)))"

definition getSnippetById_try ::
  "env \<Rightarrow> world \<Rightarrow> string \<Rightarrow> string option \<Rightarrow> (js_error + snippet) \<times> world" where
  "getSnippetById_try ev w snippetId userId =
     (if fails ev SnippetFindUnique then (Inl StoreFailure, w)
      else
        (case snippet_findUnique w snippetId of
           None \<Rightarrow> (Inl (SnippetError ''Snippet nao encontrado'' 404), w)
         | Some snippet \<Rightarrow>
             (let canAccess =
                    (isPublic snippet \<or> (truthy userId \<and> Some (authorId snippet) = userId))
              in if \<not> canAccess then (Inl (SnippetError ''Acesso negado ao snippet'' 403), w)
                 else if userId \<noteq> Some (authorId snippet)
                 then
                   (case snippet_update ev w snippetId (\<lambda>t. t\<lparr>views := views t + 1\<rparr>) of
                      Inl e \<Rightarrow> (Inl e, w)
                    | Inr w' \<Rightarrow> (Inr (snippet\<lparr>views := views snippet + 1\<rparr>), w'))
                 else (Inr snippet, w))))"

definition getSnippetById ::
  "env \<Rightarrow> world \<Rightarrow> string \<Rightarrow> string option \<Rightarrow> (js_error + snippet) \<times> world" where
  "getSnippetById ev w snippetId userId =
     snippet_catch ''Erro ao buscar snippet:'' ''Erro interno ao buscar snippet''
       (getSnippetById_try ev w snippetId userId)"

text \<open>The validated body of an update: an absent property leaves its column alone; the
  description may be set to null.\<close>

record updateSnippetInput =
  us_title :: "string option"
  us_description :: "string option option"
  us_content :: "string option"
  us_language :: "string option"
  us_tags :: "string list option"
  us_isPublic :: "bool option"

definition or_keep :: "'a option \<Rightarrow> 'a \<Rightarrow> 'a" where
  "or_keep v old = (case v of None \<Rightarrow> old | Some x \<Rightarrow> x)"

text \<open>\<^verbatim>\<open>data: { ...updateData, updatedAt: new Date() }\<close>\<close>

definition update_data :: "env \<Rightarrow> updateSnippetInput \<Rightarrow> snippet \<Rightarrow> snippet" where
  "update_data ev updateData t =
     t\<lparr>title := or_keep (us_title updateData) (title t),
       description := or_keep (us_description updateData) (description t),
       content := or_keep (us_content updateData) (content t),
       language := or_keep (us_language updateData) (language t),
       tags := or_keep (us_tags updateData) (tags t),
       isPublic := or_keep (us_isPublic updateData) (isPublic t),
       updatedAt := now ev\<rparr>"

definition updateSnippet_try ::
  "env \<Rightarrow> world \<Rightarrow> string \<Rightarrow> updateSnippetInput \<Rightarrow> string \<Rightarrow> (js_error + snippet) \<times> world"
  where
  "updateSnippet_try ev w snippetId updateData caller =
     (if fails ev SnippetFindUnique then (Inl StoreFailure, w)
      else
        (case snippet_findUnique w snippetId of
           None \<Rightarrow> (Inl (SnippetError ''Snippet nao encontrado'' 404), w)
         | Some existingSnippet \<Rightarrow>
             (if authorId existingSnippet \<noteq> caller
              then (Inl (SnippetError ''Voce nao tem permissao para editar este snippet'' 403), w)
              else
                (case snippet_update ev w snippetId (update_data ev updateData) of
                   Inl e \<Rightarrow> (Inl e, w)
                 | Inr w' \<Rightarrow>
                     (case snippet_findUnique w' snippetId of
                        None \<Rightarrow> (Inl PrismaNotFound, w')
                      | Some updatedSnippet \<Rightarrow> (Inr updatedSnippet, w'))))))"

definition updateSnippet ::
  "env \<Rightarrow> world \<Rightarrow> string \<Rightarrow> updateSnippetInput \<Rightarrow> string \<Rightarrow> (js_error + snippet) \<times> world"
  where
  "updateSnippet ev w snippetId updateData caller =
     snippet_catch ''Erro ao atualizar snippet:'' ''Erro interno ao atualizar snippet''
       (updateSnippet_try ev w snippetId updateData caller)"

definition deleteSnippet_try ::
  "env \<Rightarrow> world \<Rightarrow> string \<Rightarrow> string \<Rightarrow> (js_error + string) \<times> world" where
  "deleteSnippet_try ev w snippetId caller =
     (if fails ev SnippetFindUnique then (Inl StoreFailure, w)
      else
        (case snippet_findUnique w snippetId of
           None \<Rightarrow> (Inl (SnippetError ''Snippet nao encontrado'' 404), w)
         | Some existingSnippet \<Rightarrow>
             (if authorId existingSnippet \<noteq> caller
              then (Inl (SnippetError ''Voce nao tem permissao para deletar este snippet'' 403),
                    w)
              else
                (case snippet_delete ev w snippetId of
                   Inl e \<Rightarrow> (Inl e, w)
                 | Inr w' \<Rightarrow> (Inr ''Snippet deletado com sucesso'', w')))))"

definition deleteSnippet ::
  "env \<Rightarrow> world \<Rightarrow> string \<Rightarrow> string \<Rightarrow> (js_error + string) \<times> world" where
  "deleteSnippet ev w snippetId caller =
     snippet_catch ''Erro ao deletar snippet:'' ''Erro interno ao deletar snippet''
       (deleteSnippet_try ev w snippetId caller)"

text \<open>The ownership policy in the words of the specification.\<close>

definition canRead :: "snippet \<Rightarrow> string option \<Rightarrow> bool" where
  "canRead resource callerId = (isPublic resource \<or> Some (authorId resource) = callerId)"

definition canWrite :: "snippet \<Rightarrow> string \<Rightarrow> bool" where
  "canWrite resource callerId = (authorId resource = callerId)"

subsubsection \<open>The paginated listing\<close>

text \<open>The validated query (\<^verbatim>\<open>listSnippetsSchema\<close>); an absent property is \<open>None\<close>.\<close>

datatype sort_order = Asc | Desc

record listSnippetsQuery =
  q_page :: "nat option"
  q_limit :: "nat option"
  q_language :: "string option"
  q_search :: "string option"
  q_tag :: "string option"
  q_author :: "string option"
  q_sortBy :: "string option"
  q_sortOrder :: "sort_order option"
  q_isPublic :: "bool option"

text \<open>The \<^verbatim>\<open>where\<close> object of Prisma, as far as the service builds it: the properties set
  must all hold, and \<^verbatim>\<open>OR\<close> holds when one filter of its list does.\<close>

datatype snippet_filter =
    IsPublic bool | AuthorId string
  | TitleContains string | DescriptionContains string | ContentContains string

record where_clause =
  where_isPublic :: "bool option"
  where_OR :: "snippet_filter list option"
  where_language :: "string option"
  where_authorId :: "string option"
  where_tags_has :: "string option"

definition empty_where :: where_clause where
  "empty_where = \<lparr>where_isPublic = None, where_OR = None, where_language = None,
                   where_authorId = None, where_tags_has = None\<rparr>"

definition build_where :: "listSnippetsQuery \<Rightarrow> string option \<Rightarrow> where_clause" where
  "build_where query userId =
     (let where1 =
            (case q_isPublic query of
               Some b \<Rightarrow> empty_where\<lparr>where_isPublic := Some b\<rparr>
             | None \<Rightarrow>
                 (case userId of
                    None \<Rightarrow> empty_where\<lparr>where_isPublic := Some True\<rparr>
                  | Some u \<Rightarrow>
                      (if u = [] then empty_where\<lparr>where_isPublic := Some True\<rparr>
                       else empty_where\<lparr>where_OR := Some [IsPublic True, AuthorId u]\<rparr>)));
          where2 = (if truthy (q_language query)
                    then where1\<lparr>where_language := q_language query\<rparr> else where1);
          where3 = (if truthy (q_author query)
                    then where2\<lparr>where_authorId := q_author query\<rparr> else where2);
          where4 = (if truthy (q_tag query)
                    then where3\<lparr>where_tags_has := q_tag query\<rparr> else where3)
      in case q_search query of
           None \<Rightarrow> where4
         | Some search \<Rightarrow>
             (if search = [] then where4
              else where4\<lparr>where_OR :=
                     Some ((case where_OR where4 of None \<Rightarrow> [] | Some fs \<Rightarrow> fs)
                           @ [TitleContains search, DescriptionContains search,
                              ContentContains search])\<rparr>))"

text \<open>\<^verbatim>\<open>{contains: search, mode: 'insensitive'}\<close> is the case-insensitive containment test of
  the database, read from the environment.\<close>

record search_env =
  contains_insensitive :: "string \<Rightarrow> string \<Rightarrow> bool"
  title_le :: "string \<Rightarrow> string \<Rightarrow> bool"

definition filter_holds :: "search_env \<Rightarrow> snippet_filter \<Rightarrow> snippet \<Rightarrow> bool" where
  "filter_holds se f s =
     (case f of
        IsPublic b \<Rightarrow> isPublic s = b
      | AuthorId a \<Rightarrow> authorId s = a
      | TitleContains x \<Rightarrow> contains_insensitive se (title s) x
      | DescriptionContains x \<Rightarrow>
          (case description s of None \<Rightarrow> False | Some d \<Rightarrow> contains_insensitive se d x)
      | ContentContains x \<Rightarrow> contains_insensitive se (content s) x)"

definition opt_holds :: "'a option \<Rightarrow> ('a \<Rightarrow> bool) \<Rightarrow> bool" where
  "opt_holds v p = (case v of None \<Rightarrow> True | Some x \<Rightarrow> p x)"

definition matches :: "search_env \<Rightarrow> where_clause \<Rightarrow> snippet \<Rightarrow> bool" where
  "matches se wh s =
     (opt_holds (where_isPublic wh) (\<lambda>b. isPublic s = b)
      \<and> opt_holds (where_OR wh) (\<lambda>fs. list_ex (\<lambda>f. filter_holds se f s) fs)
      \<and> opt_holds (where_language wh) (\<lambda>l. language s = l)
      \<and> opt_holds (where_authorId wh) (\<lambda>a. authorId s = a)
      \<and> opt_holds (where_tags_has wh) (\<lambda>t. t \<in> set (tags s)))"

text \<open>The \<^verbatim>\<open>switch (sortBy)\<close> and the ordering. Rows with equal keys come in an order the
  database does not promise; the model keeps them in table order. Titles are compared by
  the collation of the database, read from the environment.\<close>

datatype sort_column = CreatedAt | UpdatedAt | Views | Likes | Title

definition orderBy_of :: "string \<Rightarrow> sort_order \<Rightarrow> sort_column \<times> sort_order" where
  "orderBy_of sortBy sortOrder =
     (if sortBy = ''created'' then (CreatedAt, sortOrder)
      else if sortBy = ''updated'' then (UpdatedAt, sortOrder)
      else if sortBy = ''views'' then (Views, sortOrder)
      else if sortBy = ''likes'' then (Likes, sortOrder)
      else if sortBy = ''title'' then (Title, sortOrder)
      else (CreatedAt, Desc))"

definition row_le :: "search_env \<Rightarrow> sort_column \<Rightarrow> snippet \<Rightarrow> snippet \<Rightarrow> bool" where
  "row_le se c a b =
     (case c of
        CreatedAt \<Rightarrow> createdAt a \<le> createdAt b
      | UpdatedAt \<Rightarrow> updatedAt a \<le> updatedAt b
      | Views \<Rightarrow> views a \<le> views b
      | Likes \<Rightarrow> likes a \<le> likes b
      | Title \<Rightarrow> title_le se (title a) (title b))"

fun insert_by :: "('a \<Rightarrow> 'a \<Rightarrow> bool) \<Rightarrow> 'a \<Rightarrow> 'a list \<Rightarrow> 'a list" where
  "insert_by le x [] = [x]"
| "insert_by le x (y # ys) = (if le x y then x # y # ys else y # insert_by le x ys)"

definition order_rows ::
  "search_env \<Rightarrow> sort_column \<times> sort_order \<Rightarrow> snippet list \<Rightarrow> snippet list" where
  "order_rows se ob rows =
     (case ob of
        (c, Asc) \<Rightarrow> foldr (insert_by (row_le se c)) rows []
      | (c, Desc) \<Rightarrow> foldr (insert_by (\<lambda>a b. row_le se c b a)) rows [])"

record pagination =
  currentPage :: nat
  totalPages :: "nat option"
  totalCount :: nat
  hasNextPage :: bool
  hasPrevPage :: bool
  limit :: nat

record listResult =
  result_snippets :: "snippet list"
  result_pagination :: pagination

text \<open>
  The listing. \<^verbatim>\<open>skip = (page - 1) * limit\<close> is negative for page 0, which the store
  rejects. \<^verbatim>\<open>Math.ceil(totalCount / limit)\<close> is not a finite number for limit 0 (\<open>None\<close>);
  \<^verbatim>\<open>page < totalPages\<close> is then true for Infinity and false for NaN. The schema of the query
  admits neither value (page at least 1, limit from 1 to 100). Every error is answered by
  the same \<open>SnippetError\<close> of status 500.
\<close>

definition getSnippetsWithPagination ::
  "env \<Rightarrow> search_env \<Rightarrow> world \<Rightarrow> listSnippetsQuery \<Rightarrow> string option
     \<Rightarrow> (js_error + listResult) \<times> world" where
  "getSnippetsWithPagination ev se w query userId =
     (let page = or_keep (q_page query) 1;
          limit = or_keep (q_limit query) 20;
          sortBy = or_keep (q_sortBy query) ''created'';
          sortOrder = or_keep (q_sortOrder query) Desc;
          wh = build_where query userId;
          orderBy = orderBy_of sortBy sortOrder
      in if page = 0 \<and> limit \<noteq> 0 \<or> fails ev SnippetFindMany \<or> fails ev SnippetCount
         then (Inl (SnippetError ''Erro interno ao buscar snippets'' 500),
               log ''Erro ao buscar snippets com paginacao:'' w)
         else
           (let skip = (page - 1) * limit;
                found = take limit (drop skip
                          (order_rows se orderBy (filter (matches se wh) (snippets w))));
                total = length (filter (matches se wh) (snippets w));
                pages = (if limit = 0 then None else Some ((total + limit - 1) div limit))
            in (Inr \<lparr>result_snippets = found,
                      result_pagination =
                        \<lparr>currentPage = page, totalPages = pages, totalCount = total,
                          hasNextPage = (case pages of None \<Rightarrow> 0 < total | Some n \<Rightarrow> page < n),
                          hasPrevPage = (1 < page), limit = limit\<rparr>\<rparr>, w)))"

subsection \<open>A concrete store, inputs and environments\<close>

text \<open>The empty store, the registration of a user \<open>alice\<close> and the row it creates, and an
  environment in which no store call fails; the stand-ins for \<^verbatim>\<open>bcryptjs\<close> and
  \<^verbatim>\<open>jsonwebtoken\<close> are only used to run the definitions on these inputs.\<close>

definition empty_world :: world where
  "empty_world = \<lparr>users = [], pointTransactions = [], badges = [], userBadges = [],
                   snippets = [], console = []\<rparr>"

definition quiet_env :: env where
  "quiet_env =
     \<lparr>fails = (\<lambda>c. False), now = 1000,
      cuid = (\<lambda>c. case c of UserCreate \<Rightarrow> ''cku1'' | PointTransactionCreate \<Rightarrow> ''ckp1''
                    | _ \<Rightarrow> ''ckb1''),
      concurrent_users = [],
      bcrypt_hash = (\<lambda>p rounds. ''hashed:'' @ p),
      bcrypt_compare = (\<lambda>p h. h = ''hashed:'' @ p),
      jwt_sign = (\<lambda>payload opts. ''token-of-'' @ subject opts),
      jwt_verify =
        (\<lambda>t. if t = ''token-of-cku1''
              then Inr [''id'' \<mapsto> JString ''cku1'',
                        ''email'' \<mapsto> JString ''alice@example.com'',
                        ''username'' \<mapsto> JString ''alice'']
              else if t = ''expired-token'' then Inl (TokenExpiredError ''jwt expired'')
              else Inl (JsonWebTokenError ''jwt malformed''))\<rparr>"

definition alice :: registerInput where
  "alice = \<lparr>ri_email = ''alice@example.com'', ri_password = ''Passw0rd'',
            ri_username = ''alice'', ri_firstName = Some ''Alice'', ri_lastName = None\<rparr>"

definition alice_row :: user where
  "alice_row = \<lparr>uid = ''cku1'', email = ''alice@example.com'', username = ''alice'',
                password = ''hashed:Passw0rd'', firstName = Some ''Alice'', lastName = None,
                avatar = None, bio = None, points = 0, level = 1,
                user_createdAt = 1000, user_updatedAt = 1000\<rparr>"

text \<open>The lookup of the badge fails; the insert of the point transaction fails; another
  request registers the same email between the checks and the insert.\<close>

definition badge_down_env :: env where
  "badge_down_env = quiet_env\<lparr>fails := (\<lambda>c. c = BadgeFindUnique)\<rparr>"

definition bonus_down_env :: env where
  "bonus_down_env = quiet_env\<lparr>fails := (\<lambda>c. c = PointTransactionCreate)\<rparr>"

text \<open>A store that holds the community-member badge, and an environment in which the insert
  of the awarded badge fails.\<close>

definition badge_world :: world where
  "badge_world =
     empty_world\<lparr>badges := [\<lparr>badge_id = ''ckbadge1'', badge_name = ''Community Member''\<rparr>]\<rparr>"

definition badge_insert_down_env :: env where
  "badge_insert_down_env = quiet_env\<lparr>fails := (\<lambda>c. c = UserBadgeCreate)\<rparr>"

definition race_env :: env where
  "race_env = quiet_env\<lparr>concurrent_users :=
      [alice_row\<lparr>uid := ''cku0'', username := ''alice2''\<rparr>]\<rparr>"

text \<open>The store after the registration of \<open>alice\<close> (before the bonus), and the login
  of the same user.\<close>

definition alice_world :: world where
  "alice_world = empty_world\<lparr>users := [alice_row]\<rparr>"

definition alice_login :: loginInput where
  "alice_login = \<lparr>li_email = ''alice@example.com'', li_password = ''Passw0rd''\<rparr>"

text \<open>Two snippets of \<open>alice\<close>, one private and one public, a containment test and an order
  on titles for the listing, the query with no property set, and an update of the title.\<close>

fun has_infix :: "string \<Rightarrow> string \<Rightarrow> bool" where
  "has_infix [] needle = (needle = [])"
| "has_infix (c # cs) needle = (take (length needle) (c # cs) = needle \<or> has_infix cs needle)"

fun str_le :: "string \<Rightarrow> string \<Rightarrow> bool" where
  "str_le [] b = True"
| "str_le (x # xs) [] = False"
| "str_le (x # xs) (y # ys) = (code_unit x < code_unit y \<or> (x = y \<and> str_le xs ys))"

definition plain_search :: search_env where
  "plain_search =
     \<lparr>contains_insensitive = (\<lambda>hay needle. has_infix (toLowerCase hay) (toLowerCase needle)),
      title_le = str_le\<rparr>"

definition private_snippet :: snippet where
  "private_snippet =
     \<lparr>sid = ''cks1'', title = ''deploy keys'', description = None,
      content = ''export TOKEN=abc'', language = ''bash'', tags = [], isPublic = False,
      views = 0, likes = 0, createdAt = 500, updatedAt = 500, authorId = ''cku1''\<rparr>"

definition public_snippet :: snippet where
  "public_snippet =
     \<lparr>sid = ''cks2'', title = ''hello world'', description = Some ''a first program'',
      content = ''print(1)'', language = ''python'', tags = [''intro''], isPublic = True,
      views = 7, likes = 0, createdAt = 600, updatedAt = 600, authorId = ''cku1''\<rparr>"

definition snippet_world :: world where
  "snippet_world = alice_world\<lparr>snippets := [private_snippet, public_snippet]\<rparr>"

text \<open>A public snippet whose view counter has reached the maximum of its column.\<close>

definition viral_snippet :: snippet where
  "viral_snippet = public_snippet\<lparr>sid := ''cks3'', views := 2147483647\<rparr>"

definition viral_world :: world where
  "viral_world = alice_world\<lparr>snippets := [viral_snippet]\<rparr>"

definition empty_query :: listSnippetsQuery where
  "empty_query = \<lparr>q_page = None, q_limit = None, q_language = None, q_search = None,
                   q_tag = None, q_author = None, q_sortBy = None, q_sortOrder = None,
                   q_isPublic = None\<rparr>"

definition rename_update :: updateSnippetInput where
  "rename_update = \<lparr>us_title = Some ''renamed'', us_description = None, us_content = None,
                     us_language = None, us_tags = None, us_isPublic = None\<rparr>"

section \<open>Properties\<close>

subsection \<open>Helper facts\<close>

lemma find_append_None: "find P xs = None \<Longrightarrow> find P (xs @ ys) = find P ys"
  by (induction xs) (auto split: if_splits)

lemma dropWhile_none: "list_all (\<lambda>c. \<not> P c) s \<Longrightarrow> dropWhile P s = s"
  by (cases s) auto

lemma trim_no_space: "list_all (\<lambda>c. \<not> is_js_space c) s \<Longrightarrow> trim s = s"
  by (simp add: trim_def dropWhile_none list_all_iff)

lemma username_char_lower_not_space:
  "username_char c \<Longrightarrow> \<not> is_js_space (toLowerCase_char c)"
  unfolding username_char_def is_js_space_def toLowerCase_char_def code_unit_def Let_def
  by (auto simp: of_char_of)

lemma trim_toLowerCase_username:
  "list_all username_char s \<Longrightarrow> trim (toLowerCase s) = toLowerCase s"
  by (rule trim_no_space) (simp add: toLowerCase_def list_all_iff username_char_lower_not_space)

lemma username_issues_empty:
  "username_issues s = [] \<longleftrightarrow> 3 \<le> length s \<and> length s \<le> 30 \<and> username_regex s"
  by (auto simp: username_issues_def)

lemma username_issues_field:
  "d \<in> set (formattedErrors (username_issues s)) \<Longrightarrow> field d = ''username''"
  by (auto simp: formattedErrors_def username_issues_def mk_issue_def split: if_splits)

subsection \<open>The username of a registration\<close>

text \<open>
  Claim C5, as the code has it. The validator accepts exactly the usernames of 3 to 30
  characters that match \<^verbatim>\<open>^[a-zA-Z0-9_]+$\<close>; the accepted value is the input in lower case
  (trimming changes nothing, the pattern admits no white space); every other value, a
  missing or non-string one included, is answered with status 400 and a non-empty list of
  \<open>{field, message}\<close> entries whose field is \<open>username\<close>.
\<close>

theorem username_validation:
  "(accepted (validate_username (Some s)) \<longleftrightarrow>
      3 \<le> length s \<and> length s \<le> 30 \<and> username_regex s)
   \<and> (\<forall>out. validate_username (Some s) = Inr out \<longrightarrow>
         out = trim (toLowerCase s) \<and> out = toLowerCase s)
   \<and> (\<not> accepted (validate_username v) \<longrightarrow>
         (\<exists>details. validate_username v = Inl (400, details) \<and> details \<noteq> []
            \<and> (\<forall>d \<in> set details. field d = ''username'')))"
proof (intro conjI allI impI)
  show "accepted (validate_username (Some s)) \<longleftrightarrow>
      3 \<le> length s \<and> length s \<le> 30 \<and> username_regex s"
    by (simp add: accepted_def validate_username_def registerSchema_username_def
        username_issues_empty)
next
  fix out assume "validate_username (Some s) = Inr out"
  then have ok: "username_issues s = []" and out: "out = trim (toLowerCase s)"
    by (auto simp: validate_username_def registerSchema_username_def split: if_splits)
  from ok have "list_all username_char s"
    by (simp add: username_issues_empty username_regex_def)
  then show "out = toLowerCase s" using out by (simp add: trim_toLowerCase_username)
  show "out = trim (toLowerCase s)" by (rule out)
next
  assume rej: "\<not> accepted (validate_username v)"
  show "\<exists>details. validate_username v = Inl (400, details) \<and> details \<noteq> []
            \<and> (\<forall>d \<in> set details. field d = ''username'')"
  proof (cases v)
    case None
    then show ?thesis
      by (simp add: validate_username_def registerSchema_username_def formattedErrors_def
          mk_issue_def)
  next
    case (Some s')
    with rej have ne: "username_issues s' \<noteq> []"
      by (auto simp: accepted_def validate_username_def registerSchema_username_def)
    then have "validate_username v = Inl (400, formattedErrors (username_issues s'))"
      using Some by (simp add: validate_username_def registerSchema_username_def)
    moreover have "formattedErrors (username_issues s') \<noteq> []"
      using ne by (simp add: formattedErrors_def)
    ultimately show ?thesis using username_issues_field by blast
  qed
qed

text \<open>The theorem at \<open>John_Doe\<close>, which is accepted as \<open>john_doe\<close>, and at \<open>u!\<close>, which is
  rejected.\<close>

theorem username_validation_witness:
  "accepted (validate_username (Some ''John_Doe''))
   \<and> validate_username (Some ''John_Doe'') = Inr ''john_doe''
   \<and> \<not> accepted (validate_username (Some ''u!''))
   \<and> (\<exists>details. validate_username (Some ''u!'') = Inl (400, details) \<and> details \<noteq> []
            \<and> (\<forall>d \<in> set details. field d = ''username''))"
proof -
  have a: "accepted (validate_username (Some ''John_Doe''))"
    using username_validation [of "''John_Doe''" None]
    by (simp add: username_regex_def username_char_def code_unit_def)
  have b: "validate_username (Some ''John_Doe'') = Inr ''john_doe''"
    by code_simp
  have c: "\<not> accepted (validate_username (Some ''u!''))"
    by (simp add: accepted_def validate_username_def registerSchema_username_def
        username_issues_def)
  from c username_validation [of "''u!''" "Some ''u!''"] a b show ?thesis by blast
qed

text \<open>Claim C5 as the specification words it fails: a username with a hyphen and a
  username of 40 characters both satisfy the stated contract and are rejected.\<close>

theorem username_spec_counterexample:
  "spec_username_ok ''john-doe'' \<and> \<not> accepted (validate_username (Some ''john-doe''))
   \<and> spec_username_ok (replicate 40 CHR ''a'')
   \<and> \<not> accepted (validate_username (Some (replicate 40 CHR ''a'')))"
  by (simp add: spec_username_ok_def spec_username_char_def accepted_def validate_username_def
      registerSchema_username_def username_issues_def username_regex_def username_char_def
      code_unit_def list_all_iff)

subsection \<open>Registration\<close>

lemma user_create_found:
  assumes "user_create ev w em un pw fn ln = Inr (created, w2)"
  shows "user_findUnique_id w2 (uid created) = Some created"
    and "console w2 = console w"
    and "w2 = w\<lparr>users := users w @ [created]\<rparr>"
    and "points created = 0"
  using assms
  by (auto simp: user_create_def user_findUnique_id_def Let_def find_append_None
      split: if_splits)

lemma welcome_bonus_exact:
  assumes "\<not> fails ev PointTransactionCreate" and "\<not> fails ev UserUpdate"
    and "user_findUnique_id w i = Some u" and "points u = 0"
  shows "welcome_bonus ev w i
         = (None,
            awardWelcomeBadge ev
              (w\<lparr>pointTransactions := pointTransactions w @
                    [\<lparr>pt_id = cuid ev PointTransactionCreate, amount = 10,
                      reason = ''Bonus de boas-vindas ao CodeCollab'', pt_type = BONUS,
                      pt_createdAt = now ev, pt_userId = i\<rparr>],
                  users := map (\<lambda>u. if uid u = i
                                     then u\<lparr>points := points u + 10, user_updatedAt := now ev\<rparr>
                                     else u) (users w)\<rparr>) i)"
  using assms
  by (simp add: welcome_bonus_def pointTransaction_create_def user_update_points_def
      user_findUnique_id_def int32_def)

lemma awardWelcomeBadge_failed:
  assumes "fails ev BadgeFindUnique
           \<or> (\<exists>b. badge_findUnique_name w ''Community Member'' = Some b
                 \<and> (fails ev UserBadgeFindUnique
                      \<or> (userBadge_findUnique w i (badge_id b) = None
                          \<and> fails ev UserBadgeCreate)))"
  shows "awardWelcomeBadge ev w i = log ''Error awarding welcome badge:'' w"
  using assms by (auto simp: awardWelcomeBadge_def userBadge_create_def)

lemma awardWelcomeBadge_quiet:
  assumes "\<not> (fails ev BadgeFindUnique
           \<or> (\<exists>b. badge_findUnique_name w ''Community Member'' = Some b
                 \<and> (fails ev UserBadgeFindUnique
                      \<or> (userBadge_findUnique w i (badge_id b) = None
                          \<and> fails ev UserBadgeCreate))))"
  shows "console (awardWelcomeBadge ev w i) = console w"
  using assms
  by (auto simp: awardWelcomeBadge_def userBadge_create_def split: option.splits)

lemma awardWelcomeBadge_awarded:
  assumes "\<not> (fails ev BadgeFindUnique
           \<or> (\<exists>b. badge_findUnique_name w ''Community Member'' = Some b
                 \<and> (fails ev UserBadgeFindUnique
                      \<or> (userBadge_findUnique w i (badge_id b) = None
                          \<and> fails ev UserBadgeCreate))))"
  shows "awardWelcomeBadge ev w i
         = w\<lparr>userBadges := userBadges w @
               (case badge_findUnique_name w ''Community Member'' of
                  None \<Rightarrow> []
                | Some b \<Rightarrow>
                    (if userBadge_findUnique w i (badge_id b) = None
                     then [\<lparr>ub_id = cuid ev UserBadgeCreate, earnedAt = now ev,
                            ub_userId = i, ub_badgeId = badge_id b\<rparr>]
                     else []))\<rparr>"
  using assms
  by (auto simp: awardWelcomeBadge_def userBadge_create_def split: option.splits)

lemma badge_lookups_ignore_users:
  "badge_findUnique_name (w\<lparr>pointTransactions := p, users := us\<rparr>) n
   = badge_findUnique_name w n"
  "userBadge_findUnique (w\<lparr>pointTransactions := p, users := us\<rparr>) i b
   = userBadge_findUnique w i b"
  by (simp_all add: badge_findUnique_name_def userBadge_findUnique_def)

text \<open>
  Claim C3, as the code has it. When both uniqueness checks pass and the insert of the
  identity succeeds, a failure while awarding the community-member badge does not fail the
  registration: provided the insert of the point transaction and the increment of the
  points succeed, \<open>registerUser\<close> returns the created identity whatever the three store
  calls of the badge do. When one of them fails (the lookup of the badge, the lookup of
  the user's badge, or the insert of the user's badge), the failure is only logged: the
  store is left as the bonus left it (the identity with its ten points, the point
  transaction, no badge awarded) with one line added to the console. When none fails,
  nothing is written to the console, and the store is the one the bonus left with the
  badge awarded if the store holds that badge and the user does not have it yet.
\<close>

theorem registerUser_badge_failure_swallowed:
  assumes "\<not> fails ev UserFindUniqueByEmail"
    and "user_findUnique_email w (ri_email userData) = None"
    and "\<not> fails ev UserFindUniqueByUsername"
    and "user_findUnique_username w (ri_username userData) = None"
    and "user_create ev (w\<lparr>users := users w @ concurrent_users ev\<rparr>) (ri_email userData)
           (ri_username userData) (bcrypt_hash ev (ri_password userData) 12)
           (or_null (ri_firstName userData)) (or_null (ri_lastName userData))
         = Inr (created, w2)"
    and "\<not> fails ev PointTransactionCreate"
    and "\<not> fails ev UserUpdate"
  shows "fst (registerUser ev w userData) = Inr (prisma_select userSelect (user_row created))
         \<and> (fails ev BadgeFindUnique
              \<or> (\<exists>b. badge_findUnique_name w ''Community Member'' = Some b
                    \<and> (fails ev UserBadgeFindUnique
                         \<or> (userBadge_findUnique w (uid created) (badge_id b) = None
                             \<and> fails ev UserBadgeCreate)))
             \<longrightarrow>
              snd (registerUser ev w userData)
              = w\<lparr>pointTransactions := pointTransactions w @
                    [\<lparr>pt_id = cuid ev PointTransactionCreate, amount = 10,
                      reason = ''Bonus de boas-vindas ao CodeCollab'', pt_type = BONUS,
                      pt_createdAt = now ev, pt_userId = uid created\<rparr>],
                  users :=
                    map (\<lambda>u. if uid u = uid created
                              then u\<lparr>points := points u + 10, user_updatedAt := now ev\<rparr>
                              else u)
                      (users w @ concurrent_users ev @ [created]),
                  console := console w @ [''Error awarding welcome badge:'']\<rparr>)
         \<and> (\<not> (fails ev BadgeFindUnique
                 \<or> (\<exists>b. badge_findUnique_name w ''Community Member'' = Some b
                       \<and> (fails ev UserBadgeFindUnique
                            \<or> (userBadge_findUnique w (uid created) (badge_id b) = None
                                \<and> fails ev UserBadgeCreate))))
             \<longrightarrow>
              console (snd (registerUser ev w userData)) = console w
              \<and> snd (registerUser ev w userData)
                = w\<lparr>pointTransactions := pointTransactions w @
                      [\<lparr>pt_id = cuid ev PointTransactionCreate, amount = 10,
                        reason = ''Bonus de boas-vindas ao CodeCollab'', pt_type = BONUS,
                        pt_createdAt = now ev, pt_userId = uid created\<rparr>],
                    users :=
                      map (\<lambda>u. if uid u = uid created
                                then u\<lparr>points := points u + 10, user_updatedAt := now ev\<rparr>
                                else u)
                        (users w @ concurrent_users ev @ [created]),
                    userBadges := userBadges w @
                      (case badge_findUnique_name w ''Community Member'' of
                         None \<Rightarrow> []
                       | Some b \<Rightarrow>
                           (if userBadge_findUnique w (uid created) (badge_id b) = None
                            then [\<lparr>ub_id = cuid ev UserBadgeCreate, earnedAt = now ev,
                                   ub_userId = uid created, ub_badgeId = badge_id b\<rparr>]
                            else []))\<rparr>)"
proof -
  let ?failing = "fails ev BadgeFindUnique
              \<or> (\<exists>b. badge_findUnique_name w ''Community Member'' = Some b
                    \<and> (fails ev UserBadgeFindUnique
                         \<or> (userBadge_findUnique w (uid created) (badge_id b) = None
                             \<and> fails ev UserBadgeCreate)))"
  let ?w1 = "w\<lparr>users := users w @ concurrent_users ev\<rparr>"
  let ?bonus = "w\<lparr>pointTransactions := pointTransactions w @
                    [\<lparr>pt_id = cuid ev PointTransactionCreate, amount = 10,
                      reason = ''Bonus de boas-vindas ao CodeCollab'', pt_type = BONUS,
                      pt_createdAt = now ev, pt_userId = uid created\<rparr>],
                  users :=
                    map (\<lambda>u. if uid u = uid created
                              then u\<lparr>points := points u + 10, user_updatedAt := now ev\<rparr>
                              else u)
                      (users w @ concurrent_users ev @ [created])\<rparr>"
  note created = user_create_found [OF assms(5)]
  have w2: "w2 = w\<lparr>users := users w @ concurrent_users ev @ [created]\<rparr>"
    using created(3) by simp
  have bonus: "welcome_bonus ev w2 (uid created)
               = (None, awardWelcomeBadge ev ?bonus (uid created))"
    using welcome_bonus_exact [OF assms(6,7) created(1,4)] by (simp add: w2)
  then have body: "registerUser_try ev w userData
      = (Inr (prisma_select userSelect (user_row created)),
         awardWelcomeBadge ev ?bonus (uid created))"
    using assms(1-5) by (simp add: registerUser_try_def Let_def)
  then have res: "registerUser ev w userData
      = (Inr (prisma_select userSelect (user_row created)),
         awardWelcomeBadge ev ?bonus (uid created))"
    by (simp add: registerUser_def)
  have logged: "?failing \<longrightarrow>
      awardWelcomeBadge ev ?bonus (uid created)
      = log ''Error awarding welcome badge:'' ?bonus"
    using awardWelcomeBadge_failed [of ev ?bonus "uid created"]
    unfolding badge_lookups_ignore_users by blast
  have "\<not> ?failing \<longrightarrow>
      console (awardWelcomeBadge ev ?bonus (uid created)) = console ?bonus"
    using awardWelcomeBadge_quiet [of ev ?bonus "uid created"]
    unfolding badge_lookups_ignore_users by blast
  then have quiet: "\<not> ?failing \<longrightarrow>
      console (awardWelcomeBadge ev ?bonus (uid created)) = console w"
    by simp
  have awarded: "\<not> ?failing \<longrightarrow>
      awardWelcomeBadge ev ?bonus (uid created)
      = ?bonus\<lparr>userBadges := userBadges ?bonus @
               (case badge_findUnique_name w ''Community Member'' of
                  None \<Rightarrow> []
                | Some b \<Rightarrow>
                    (if userBadge_findUnique w (uid created) (badge_id b) = None
                     then [\<lparr>ub_id = cuid ev UserBadgeCreate, earnedAt = now ev,
                            ub_userId = uid created, ub_badgeId = badge_id b\<rparr>]
                     else []))\<rparr>"
    using awardWelcomeBadge_awarded [of ev ?bonus "uid created"]
    unfolding badge_lookups_ignore_users by blast
  have first: "fst (registerUser ev w userData)
               = Inr (prisma_select userSelect (user_row created))"
    using res by simp
  have second: "?failing \<longrightarrow>
      snd (registerUser ev w userData)
      = ?bonus\<lparr>console := console w @ [''Error awarding welcome badge:'']\<rparr>"
    using res logged by (simp add: log_def)
  have third: "\<not> ?failing \<longrightarrow>
      console (snd (registerUser ev w userData)) = console w
      \<and> snd (registerUser ev w userData)
        = ?bonus\<lparr>userBadges := userBadges w @
               (case badge_findUnique_name w ''Community Member'' of
                  None \<Rightarrow> []
                | Some b \<Rightarrow>
                    (if userBadge_findUnique w (uid created) (badge_id b) = None
                     then [\<lparr>ub_id = cuid ev UserBadgeCreate, earnedAt = now ev,
                            ub_userId = uid created, ub_badgeId = badge_id b\<rparr>]
                     else []))\<rparr>"
    using res quiet awarded by simp
  from first second third show ?thesis by blast
qed

lemma create_alice:
  "\<not> fails ev UserCreate \<Longrightarrow> cuid ev UserCreate = ''cku1'' \<Longrightarrow> now ev = 1000 \<Longrightarrow>
   bcrypt_hash ev = (\<lambda>p rounds. ''hashed:'' @ p) \<Longrightarrow> concurrent_users ev = [] \<Longrightarrow>
   users w = [] \<Longrightarrow>
   user_create ev (w\<lparr>users := users w @ concurrent_users ev\<rparr>)
     (ri_email alice) (ri_username alice) (bcrypt_hash ev (ri_password alice) 12)
     (or_null (ri_firstName alice)) (or_null (ri_lastName alice))
   = Inr (alice_row, w\<lparr>users := [alice_row]\<rparr>)"
  by (simp add: user_create_def alice_def alice_row_def or_null_def user_findUnique_id_def
      user_findUnique_email_def user_findUnique_username_def Let_def)

text \<open>The theorem on the empty store with the badge lookup failing, on the store that
  holds the badge with the insert of the user's badge failing, and on the same store with
  no call failing.\<close>

theorem registerUser_badge_failure_swallowed_witness:
  "fst (registerUser badge_down_env empty_world alice)
     = Inr (prisma_select userSelect (user_row alice_row))
   \<and> console (snd (registerUser badge_down_env empty_world alice))
     = [''Error awarding welcome badge:'']
   \<and> fst (registerUser badge_insert_down_env badge_world alice)
     = Inr (prisma_select userSelect (user_row alice_row))
   \<and> console (snd (registerUser badge_insert_down_env badge_world alice))
     = [''Error awarding welcome badge:'']
   \<and> userBadges (snd (registerUser badge_insert_down_env badge_world alice)) = []
   \<and> fst (registerUser quiet_env badge_world alice)
     = Inr (prisma_select userSelect (user_row alice_row))
   \<and> console (snd (registerUser quiet_env badge_world alice)) = []
   \<and> userBadges (snd (registerUser quiet_env badge_world alice))
     = [\<lparr>ub_id = ''ckb1'', earnedAt = 1000, ub_userId = ''cku1'', ub_badgeId = ''ckbadge1''\<rparr>]"
proof -
  have c3: "user_create quiet_env
             (badge_world\<lparr>users := users badge_world @ concurrent_users quiet_env\<rparr>)
             (ri_email alice) (ri_username alice)
             (bcrypt_hash quiet_env (ri_password alice) 12)
             (or_null (ri_firstName alice)) (or_null (ri_lastName alice))
           = Inr (alice_row, badge_world\<lparr>users := [alice_row]\<rparr>)"
    by (rule create_alice) (simp_all add: quiet_env_def badge_world_def empty_world_def)
  have f3: "\<not> fails quiet_env c" for c
    by (simp add: quiet_env_def)
  have q3: "cuid quiet_env UserBadgeCreate = ''ckb1''" "now quiet_env = 1000"
    "uid alice_row = ''cku1''"
    by (simp_all add: quiet_env_def alice_row_def)
  have c1: "user_create badge_down_env
             (empty_world\<lparr>users := users empty_world @ concurrent_users badge_down_env\<rparr>)
             (ri_email alice) (ri_username alice)
             (bcrypt_hash badge_down_env (ri_password alice) 12)
             (or_null (ri_firstName alice)) (or_null (ri_lastName alice))
           = Inr (alice_row, empty_world\<lparr>users := [alice_row]\<rparr>)"
    by (rule create_alice) (simp_all add: badge_down_env_def quiet_env_def empty_world_def)
  have c2: "user_create badge_insert_down_env
             (badge_world\<lparr>users := users badge_world @ concurrent_users badge_insert_down_env\<rparr>)
             (ri_email alice) (ri_username alice)
             (bcrypt_hash badge_insert_down_env (ri_password alice) 12)
             (or_null (ri_firstName alice)) (or_null (ri_lastName alice))
           = Inr (alice_row, badge_world\<lparr>users := [alice_row]\<rparr>)"
    by (rule create_alice)
      (simp_all add: badge_insert_down_env_def quiet_env_def badge_world_def empty_world_def)
  have f1: "fails badge_down_env BadgeFindUnique"
    "\<not> fails badge_down_env UserFindUniqueByEmail"
    "\<not> fails badge_down_env UserFindUniqueByUsername"
    "\<not> fails badge_down_env PointTransactionCreate"
    "\<not> fails badge_down_env UserUpdate"
    by (simp_all add: badge_down_env_def)
  have f2: "fails badge_insert_down_env UserBadgeCreate"
    "\<not> fails badge_insert_down_env UserFindUniqueByEmail"
    "\<not> fails badge_insert_down_env UserFindUniqueByUsername"
    "\<not> fails badge_insert_down_env PointTransactionCreate"
    "\<not> fails badge_insert_down_env UserUpdate"
    by (simp_all add: badge_insert_down_env_def)
  have e1: "user_findUnique_email empty_world (ri_email alice) = None"
    "user_findUnique_username empty_world (ri_username alice) = None"
    by (simp_all add: user_findUnique_email_def user_findUnique_username_def empty_world_def)
  have e2: "user_findUnique_email badge_world (ri_email alice) = None"
    "user_findUnique_username badge_world (ri_username alice) = None"
    by (simp_all add: user_findUnique_email_def user_findUnique_username_def badge_world_def
        empty_world_def)
  have b2: "badge_findUnique_name badge_world ''Community Member''
            = Some \<lparr>badge_id = ''ckbadge1'', badge_name = ''Community Member''\<rparr>"
    "userBadge_findUnique badge_world (uid alice_row) ''ckbadge1'' = None"
    by (simp_all add: badge_findUnique_name_def userBadge_findUnique_def badge_world_def
        empty_world_def)
  note t1 = registerUser_badge_failure_swallowed [OF f1(2) e1(1) f1(3) e1(2) c1 f1(4) f1(5)]
  note t2 = registerUser_badge_failure_swallowed [OF f2(2) e2(1) f2(3) e2(2) c2 f2(4) f2(5)]
  from t1 f1(1) have r1: "fst (registerUser badge_down_env empty_world alice)
     = Inr (prisma_select userSelect (user_row alice_row))
   \<and> console (snd (registerUser badge_down_env empty_world alice))
     = [''Error awarding welcome badge:'']"
    by (simp add: empty_world_def)
  from t2 f2(1) b2 have r2: "fst (registerUser badge_insert_down_env badge_world alice)
     = Inr (prisma_select userSelect (user_row alice_row))
   \<and> console (snd (registerUser badge_insert_down_env badge_world alice))
     = [''Error awarding welcome badge:'']
   \<and> userBadges (snd (registerUser badge_insert_down_env badge_world alice)) = []"
    by (simp add: badge_world_def empty_world_def)
  note t3 = registerUser_badge_failure_swallowed [OF f3 e2(1) f3 e2(2) c3 f3 f3]
  from t3 f3 b2 q3 have r3: "fst (registerUser quiet_env badge_world alice)
     = Inr (prisma_select userSelect (user_row alice_row))
   \<and> console (snd (registerUser quiet_env badge_world alice)) = []
   \<and> userBadges (snd (registerUser quiet_env badge_world alice))
     = [\<lparr>ub_id = ''ckb1'', earnedAt = 1000, ub_userId = ''cku1'', ub_badgeId = ''ckbadge1''\<rparr>]"
    by (simp add: badge_world_def empty_world_def)
  from r1 r2 r3 show ?thesis by simp
qed

text \<open>Claim C3 as stated fails: with both checks passed and the identity inserted, a
  failing insert of the point transaction makes \<open>registerUser\<close> throw its status 500
  error, although the identity stays in the store (with the ten points added).\<close>

theorem registerUser_bonus_failure_counterexample:
  "user_findUnique_email empty_world (ri_email alice) = None
   \<and> user_findUnique_username empty_world (ri_username alice) = None
   \<and> fails bonus_down_env PointTransactionCreate
   \<and> fst (registerUser bonus_down_env empty_world alice)
       = Inl (AuthError ''Erro interno do servidor ao registrar usuario'' 500)
   \<and> users (snd (registerUser bonus_down_env empty_world alice))
       = [alice_row\<lparr>points := 10\<rparr>]"
  by (simp add: registerUser_def registerUser_try_def welcome_bonus_def user_create_def
      pointTransaction_create_def user_update_points_def awardWelcomeBadge_def
      badge_findUnique_name_def instanceof_AuthError_def log_def int32_def
      bonus_down_env_def quiet_env_def empty_world_def alice_def
      alice_row_def or_null_def user_findUnique_id_def user_findUnique_email_def
      user_findUnique_username_def Let_def)

text \<open>
  Claim C4, as the code has it. When both uniqueness checks pass and the insert then
  fails on a unique index (another registration committed first), \<open>registerUser\<close> fails
  with the \<open>AuthError\<close> of status 500 and the generic message of its \<^verbatim>\<open>catch\<close>: the service
  has no branch for the store's violation.
\<close>

theorem registerUser_store_conflict:
  assumes "\<not> fails ev UserFindUniqueByEmail"
    and "user_findUnique_email w (ri_email userData) = None"
    and "\<not> fails ev UserFindUniqueByUsername"
    and "user_findUnique_username w (ri_username userData) = None"
    and "user_create ev (w\<lparr>users := users w @ concurrent_users ev\<rparr>) (ri_email userData)
           (ri_username userData) (bcrypt_hash ev (ri_password userData) 12)
           (or_null (ri_firstName userData)) (or_null (ri_lastName userData))
         = Inl (PrismaUniqueViolation column)"
  shows "fst (registerUser ev w userData)
         = Inl (AuthError ''Erro interno do servidor ao registrar usuario'' 500)"
  using assms
  by (simp add: registerUser_def registerUser_try_def Let_def instanceof_AuthError_def)

lemma race_create:
  "user_create race_env
     (empty_world\<lparr>users := users empty_world @ concurrent_users race_env\<rparr>)
     (ri_email alice) (ri_username alice) (bcrypt_hash race_env (ri_password alice) 12)
     (or_null (ri_firstName alice)) (or_null (ri_lastName alice))
   = Inl (PrismaUniqueViolation ''email'')"
  by (simp add: user_create_def race_env_def quiet_env_def empty_world_def alice_def
      alice_row_def or_null_def user_findUnique_id_def user_findUnique_email_def
      user_findUnique_username_def)

lemma race_prechecks:
  "\<not> fails race_env UserFindUniqueByEmail"
  "user_findUnique_email empty_world (ri_email alice) = None"
  "\<not> fails race_env UserFindUniqueByUsername"
  "user_findUnique_username empty_world (ri_username alice) = None"
  by (simp_all add: race_env_def quiet_env_def user_findUnique_email_def
      user_findUnique_username_def empty_world_def)

text \<open>The theorem on the empty store, with the same email registered by another request
  between the checks and the insert.\<close>

theorem registerUser_store_conflict_witness:
  "fst (registerUser race_env empty_world alice)
   = Inl (AuthError ''Erro interno do servidor ao registrar usuario'' 500)"
  using registerUser_store_conflict [OF race_prechecks race_create] .

text \<open>Claim C4 as stated fails there: the checks pass, the insert meets the unique index
  on \<open>email\<close>, and the error thrown is not the 409 of the check but one of status 500.\<close>

theorem registerUser_race_counterexample:
  "user_findUnique_email empty_world (ri_email alice) = None
   \<and> user_findUnique_username empty_world (ri_username alice) = None
   \<and> user_create race_env
       (empty_world\<lparr>users := users empty_world @ concurrent_users race_env\<rparr>)
       (ri_email alice) (ri_username alice) (bcrypt_hash race_env (ri_password alice) 12)
       (or_null (ri_firstName alice)) (or_null (ri_lastName alice))
     = Inl (PrismaUniqueViolation ''email'')
   \<and> fst (registerUser race_env empty_world alice)
     \<noteq> Inl (AuthError ''Usuario com este email ja existe'' 409)
   \<and> (case fst (registerUser race_env empty_world alice) of
         Inl (AuthError m code) \<Rightarrow> code = 500 | _ \<Rightarrow> False)"
  by (simp add: race_prechecks race_create registerUser_def registerUser_try_def Let_def
      instanceof_AuthError_def)

subsection \<open>Login\<close>

text \<open>
  Claim C7. When the lookup by email finds no identity, or finds one whose stored hash
  \<^verbatim>\<open>bcrypt.compare\<close> does not accept, \<open>loginUser\<close> throws the same \<open>AuthError\<close> with the
  message \<^verbatim>\<open>Credenciais invalidas\<close> and status 401; the result is an error, so no token is
  returned, and the store is unchanged.
\<close>

theorem loginUser_generic_failure:
  assumes "\<not> fails ev UserFindUniqueByEmail"
    and "user_findUnique_email w (li_email loginData) = None
         \<or> (\<exists>found. user_findUnique_email w (li_email loginData) = Some found
                \<and> \<not> bcrypt_compare ev (li_password loginData) (password found))"
  shows "loginUser ev w loginData = (Inl (AuthError ''Credenciais invalidas'' 401), w)"
  using assms
  by (auto simp: loginUser_def loginUser_try_def Let_def instanceof_AuthError_def)

text \<open>The theorem for an unknown email and for a wrong password.\<close>

theorem loginUser_generic_failure_witness:
  "loginUser quiet_env alice_world \<lparr>li_email = ''bob@example.com'', li_password = ''Passw0rd''\<rparr>
     = (Inl (AuthError ''Credenciais invalidas'' 401), alice_world)
   \<and> loginUser quiet_env alice_world \<lparr>li_email = ''alice@example.com'', li_password = ''wrong''\<rparr>
     = (Inl (AuthError ''Credenciais invalidas'' 401), alice_world)"
proof -
  have f: "\<not> fails quiet_env UserFindUniqueByEmail" by (simp add: quiet_env_def)
  have a: "user_findUnique_email alice_world
             (li_email \<lparr>li_email = ''bob@example.com'', li_password = ''Passw0rd''\<rparr>) = None"
    by (simp add: user_findUnique_email_def alice_world_def empty_world_def alice_row_def)
  have b: "\<exists>found. user_findUnique_email alice_world
             (li_email \<lparr>li_email = ''alice@example.com'', li_password = ''wrong''\<rparr>) = Some found
           \<and> \<not> bcrypt_compare quiet_env
                 (li_password \<lparr>li_email = ''alice@example.com'', li_password = ''wrong''\<rparr>)
                 (password found)"
    by (simp add: user_findUnique_email_def alice_world_def empty_world_def alice_row_def
        quiet_env_def)
  from loginUser_generic_failure [OF f disjI1, OF a]
    loginUser_generic_failure [OF f disjI2, OF b]
  show ?thesis by simp
qed

subsection \<open>No password in a returned user\<close>

lemma dom_select_user: "dom (prisma_select userSelect (user_row u)) = set userSelect"
  by (auto simp: prisma_select_def user_row_def userSelect_def dom_def
      split: if_splits)

lemma password_not_selected: "''password'' \<notin> set userSelect"
  by (simp add: userSelect_def)

lemma login_user_object:
  "without_property ''password'' (prisma_select loginSelect (user_row u))
   = prisma_select userSelect (user_row u)"
  by (rule ext)
    (simp add: without_property_def prisma_select_def loginSelect_def userSelect_def
      user_row_def)

lemma select_ignores_password:
  "prisma_select userSelect (user_row (u\<lparr>password := p\<rparr>)) = prisma_select userSelect (user_row u)"
  by (rule ext) (simp add: prisma_select_def userSelect_def user_row_def)

lemma registerUser_returns_selected:
  assumes "fst (registerUser ev w userData) = Inr u"
  shows "u = prisma_select userSelect
               (user_row \<lparr>uid = cuid ev UserCreate, email = ri_email userData,
                          username = ri_username userData, password = p,
                          firstName = or_null (ri_firstName userData),
                          lastName = or_null (ri_lastName userData),
                          avatar = None, bio = None, points = 0, level = 1,
                          user_createdAt = now ev, user_updatedAt = now ev\<rparr>)"
proof -
  let ?row = "\<lambda>p. \<lparr>uid = cuid ev UserCreate, email = ri_email userData,
                      username = ri_username userData, password = p,
                      firstName = or_null (ri_firstName userData),
                      lastName = or_null (ri_lastName userData),
                      avatar = None, bio = None, points = 0, level = 1,
                      user_createdAt = now ev, user_updatedAt = now ev\<rparr>"
  from assms have "u = prisma_select userSelect
                         (user_row (?row (bcrypt_hash ev (ri_password userData) 12)))"
    by (auto simp: registerUser_def registerUser_try_def user_create_def Let_def
        split: if_splits sum.splits prod.splits option.splits)
  moreover have "prisma_select userSelect
                   (user_row ((?row (bcrypt_hash ev (ri_password userData) 12))\<lparr>password := p\<rparr>))
                 = prisma_select userSelect
                     (user_row (?row (bcrypt_hash ev (ri_password userData) 12)))"
    by (rule select_ignores_password)
  ultimately show ?thesis by simp
qed

lemma loginUser_returns_selected:
  assumes "fst (loginUser ev w loginData) = Inr r"
  shows "\<exists>found. user_findUnique_email w (li_email loginData) = Some found
           \<and> user r = prisma_select userSelect (user_row found)
           \<and> token r = jwt_sign ev [''id'' \<mapsto> JString (uid found),
                                     ''email'' \<mapsto> JString (email found),
                                     ''username'' \<mapsto> JString (username found)]
                          \<lparr>expiresIn = ''1h'', issuer = ''codecollab-api'', subject = uid found\<rparr>"
  using assms
  by (auto simp: loginUser_def loginUser_try_def Let_def login_user_object
      split: if_splits sum.splits option.splits)

lemma verifyToken_returns_selected:
  assumes "fst (verifyToken ev w tok) = Inr u"
  shows "\<exists>decoded i found. jwt_verify ev tok = Inr decoded \<and> decoded ''id'' = Some (JString i)
           \<and> user_findUnique_id w i = Some found
           \<and> u = prisma_select userSelect (user_row found)"
  using assms
  by (auto simp: verifyToken_def verifyToken_try_def
      split: if_splits sum.splits option.splits jsval.splits)

lemma getUserProfile_returns_selected:
  assumes "fst (getUserProfile ev w userId) = Inr u"
  shows "\<exists>found. user_findUnique_id w userId = Some found
           \<and> u = prisma_select userSelect (user_row found)"
  using assms
  by (auto simp: getUserProfile_def getUserProfile_try_def
      split: if_splits sum.splits option.splits)

text \<open>
  Claim C8. Whenever \<open>registerUser\<close>, \<open>loginUser\<close>, \<open>verifyToken\<close> or \<open>getUserProfile\<close>
  returns, the user object it returns has no \<open>password\<close> property: its properties are
  exactly the eleven selected columns. Nor does the stored hash appear in a value: the
  returned object is the selection of the eleven columns from the row the call created or
  looked up, and it is the same object whatever that row holds as its password. The token
  of \<open>loginUser\<close> is \<^verbatim>\<open>jwt.sign\<close> of the payload made of the \<open>id\<close>, \<open>email\<close> and
  \<open>username\<close> of that row, with the three fixed options.
\<close>

theorem no_password_in_responses:
  "(fst (registerUser ev w userData) = Inr u1 \<longrightarrow>
      u1 ''password'' = None \<and> dom u1 = set userSelect
      \<and> (\<forall>p. u1 = prisma_select userSelect
                     (user_row \<lparr>uid = cuid ev UserCreate, email = ri_email userData,
                                username = ri_username userData, password = p,
                                firstName = or_null (ri_firstName userData),
                                lastName = or_null (ri_lastName userData),
                                avatar = None, bio = None, points = 0, level = 1,
                                user_createdAt = now ev, user_updatedAt = now ev\<rparr>)))
   \<and> (fst (loginUser ev w loginData) = Inr r \<longrightarrow>
      user r ''password'' = None \<and> dom (user r) = set userSelect
      \<and> (\<exists>found. user_findUnique_email w (li_email loginData) = Some found
            \<and> (\<forall>p. user r = prisma_select userSelect (user_row (found\<lparr>password := p\<rparr>)))
            \<and> token r = jwt_sign ev [''id'' \<mapsto> JString (uid found),
                                      ''email'' \<mapsto> JString (email found),
                                      ''username'' \<mapsto> JString (username found)]
                           \<lparr>expiresIn = ''1h'', issuer = ''codecollab-api'',
                             subject = uid found\<rparr>))
   \<and> (fst (verifyToken ev w tok) = Inr u3 \<longrightarrow>
      u3 ''password'' = None \<and> dom u3 = set userSelect
      \<and> (\<exists>decoded i found. jwt_verify ev tok = Inr decoded
            \<and> decoded ''id'' = Some (JString i)
            \<and> user_findUnique_id w i = Some found
            \<and> (\<forall>p. u3 = prisma_select userSelect (user_row (found\<lparr>password := p\<rparr>)))))
   \<and> (fst (getUserProfile ev w userId) = Inr u4 \<longrightarrow>
      u4 ''password'' = None \<and> dom u4 = set userSelect
      \<and> (\<exists>found. user_findUnique_id w userId = Some found
            \<and> (\<forall>p. u4 = prisma_select userSelect (user_row (found\<lparr>password := p\<rparr>)))))"
proof -
  have sel: "\<And>u found. u = prisma_select userSelect (user_row found) \<Longrightarrow>
               u ''password'' = None \<and> dom u = set userSelect"
    using dom_select_user password_not_selected by (metis domIff)
  have 1: "fst (registerUser ev w userData) = Inr u1 \<longrightarrow>
      u1 ''password'' = None \<and> dom u1 = set userSelect
      \<and> (\<forall>p. u1 = prisma_select userSelect
                     (user_row \<lparr>uid = cuid ev UserCreate, email = ri_email userData,
                                username = ri_username userData, password = p,
                                firstName = or_null (ri_firstName userData),
                                lastName = or_null (ri_lastName userData),
                                avatar = None, bio = None, points = 0, level = 1,
                                user_createdAt = now ev, user_updatedAt = now ev\<rparr>))"
  proof
    assume ok: "fst (registerUser ev w userData) = Inr u1"
    note row = registerUser_returns_selected [OF ok]
    from sel [OF row [of "[]"]] row
    show "u1 ''password'' = None \<and> dom u1 = set userSelect
      \<and> (\<forall>p. u1 = prisma_select userSelect
                     (user_row \<lparr>uid = cuid ev UserCreate, email = ri_email userData,
                                username = ri_username userData, password = p,
                                firstName = or_null (ri_firstName userData),
                                lastName = or_null (ri_lastName userData),
                                avatar = None, bio = None, points = 0, level = 1,
                                user_createdAt = now ev, user_updatedAt = now ev\<rparr>))"
      by blast
  qed
  have 2: "fst (loginUser ev w loginData) = Inr r \<longrightarrow>
      user r ''password'' = None \<and> dom (user r) = set userSelect
      \<and> (\<exists>found. user_findUnique_email w (li_email loginData) = Some found
            \<and> (\<forall>p. user r = prisma_select userSelect (user_row (found\<lparr>password := p\<rparr>)))
            \<and> token r = jwt_sign ev [''id'' \<mapsto> JString (uid found),
                                      ''email'' \<mapsto> JString (email found),
                                      ''username'' \<mapsto> JString (username found)]
                           \<lparr>expiresIn = ''1h'', issuer = ''codecollab-api'',
                             subject = uid found\<rparr>)"
  proof
    assume "fst (loginUser ev w loginData) = Inr r"
    from loginUser_returns_selected [OF this] obtain found where
      f: "user_findUnique_email w (li_email loginData) = Some found" and
      u: "user r = prisma_select userSelect (user_row found)" and
      t: "token r = jwt_sign ev [''id'' \<mapsto> JString (uid found),
                                     ''email'' \<mapsto> JString (email found),
                                     ''username'' \<mapsto> JString (username found)]
                          \<lparr>expiresIn = ''1h'', issuer = ''codecollab-api'', subject = uid found\<rparr>"
      by blast
    from u have "\<forall>p. user r = prisma_select userSelect (user_row (found\<lparr>password := p\<rparr>))"
      by (simp add: select_ignores_password)
    with sel [OF u] f t
    show "user r ''password'' = None \<and> dom (user r) = set userSelect
      \<and> (\<exists>found. user_findUnique_email w (li_email loginData) = Some found
            \<and> (\<forall>p. user r = prisma_select userSelect (user_row (found\<lparr>password := p\<rparr>)))
            \<and> token r = jwt_sign ev [''id'' \<mapsto> JString (uid found),
                                      ''email'' \<mapsto> JString (email found),
                                      ''username'' \<mapsto> JString (username found)]
                           \<lparr>expiresIn = ''1h'', issuer = ''codecollab-api'',
                             subject = uid found\<rparr>)"
      by blast
  qed
  have 3: "fst (verifyToken ev w tok) = Inr u3 \<longrightarrow>
      u3 ''password'' = None \<and> dom u3 = set userSelect
      \<and> (\<exists>decoded i found. jwt_verify ev tok = Inr decoded
            \<and> decoded ''id'' = Some (JString i)
            \<and> user_findUnique_id w i = Some found
            \<and> (\<forall>p. u3 = prisma_select userSelect (user_row (found\<lparr>password := p\<rparr>))))"
  proof
    assume "fst (verifyToken ev w tok) = Inr u3"
    from verifyToken_returns_selected [OF this] obtain decoded i found where
      d: "jwt_verify ev tok = Inr decoded" "decoded ''id'' = Some (JString i)"
        "user_findUnique_id w i = Some found" and
      u: "u3 = prisma_select userSelect (user_row found)"
      by blast
    from u have "\<forall>p. u3 = prisma_select userSelect (user_row (found\<lparr>password := p\<rparr>))"
      by (simp add: select_ignores_password)
    with sel [OF u] d
    show "u3 ''password'' = None \<and> dom u3 = set userSelect
      \<and> (\<exists>decoded i found. jwt_verify ev tok = Inr decoded
            \<and> decoded ''id'' = Some (JString i)
            \<and> user_findUnique_id w i = Some found
            \<and> (\<forall>p. u3 = prisma_select userSelect (user_row (found\<lparr>password := p\<rparr>))))"
      by blast
  qed
  have 4: "fst (getUserProfile ev w userId) = Inr u4 \<longrightarrow>
      u4 ''password'' = None \<and> dom u4 = set userSelect
      \<and> (\<exists>found. user_findUnique_id w userId = Some found
            \<and> (\<forall>p. u4 = prisma_select userSelect (user_row (found\<lparr>password := p\<rparr>))))"
  proof
    assume "fst (getUserProfile ev w userId) = Inr u4"
    from getUserProfile_returns_selected [OF this] obtain found where
      f: "user_findUnique_id w userId = Some found" and
      u: "u4 = prisma_select userSelect (user_row found)"
      by blast
    from u have "\<forall>p. u4 = prisma_select userSelect (user_row (found\<lparr>password := p\<rparr>))"
      by (simp add: select_ignores_password)
    with sel [OF u] f
    show "u4 ''password'' = None \<and> dom u4 = set userSelect
      \<and> (\<exists>found. user_findUnique_id w userId = Some found
            \<and> (\<forall>p. u4 = prisma_select userSelect (user_row (found\<lparr>password := p\<rparr>))))"
      by blast
  qed
  from 1 2 3 4 show ?thesis by blast
qed

lemma register_alice:
  "fst (registerUser quiet_env empty_world alice)
   = Inr (prisma_select userSelect (user_row alice_row))"
  by (simp add: registerUser_def registerUser_try_def welcome_bonus_def user_create_def
      pointTransaction_create_def user_update_points_def awardWelcomeBadge_def
      badge_findUnique_name_def quiet_env_def empty_world_def alice_def int32_def
      alice_row_def or_null_def user_findUnique_id_def user_findUnique_email_def
      user_findUnique_username_def Let_def)

lemma login_alice:
  "fst (loginUser quiet_env alice_world alice_login)
   = Inr \<lparr>token = ''token-of-cku1'', user = prisma_select userSelect (user_row alice_row)\<rparr>"
  by (simp add: loginUser_def loginUser_try_def quiet_env_def alice_world_def empty_world_def
      alice_login_def alice_row_def user_findUnique_email_def Let_def login_user_object)

lemma verify_alice:
  "fst (verifyToken quiet_env alice_world ''token-of-cku1'')
   = Inr (prisma_select userSelect (user_row alice_row))"
  by (simp add: verifyToken_def verifyToken_try_def quiet_env_def alice_world_def
      empty_world_def alice_row_def user_findUnique_id_def)

lemma profile_alice:
  "fst (getUserProfile quiet_env alice_world ''cku1'')
   = Inr (prisma_select userSelect (user_row alice_row))"
  by (simp add: getUserProfile_def getUserProfile_try_def quiet_env_def alice_world_def
      empty_world_def alice_row_def user_findUnique_id_def)

text \<open>The theorem on the four calls succeeding for \<open>alice\<close>: each returns the selection
  from the row of \<open>alice\<close>, which is the same whatever the row holds as its password.\<close>

theorem no_password_in_responses_witness:
  "fst (registerUser quiet_env empty_world alice)
     = Inr (prisma_select userSelect (user_row alice_row))
   \<and> fst (loginUser quiet_env alice_world alice_login)
     = Inr \<lparr>token = ''token-of-cku1'', user = prisma_select userSelect (user_row alice_row)\<rparr>
   \<and> fst (verifyToken quiet_env alice_world ''token-of-cku1'')
     = Inr (prisma_select userSelect (user_row alice_row))
   \<and> fst (getUserProfile quiet_env alice_world ''cku1'')
     = Inr (prisma_select userSelect (user_row alice_row))
   \<and> prisma_select userSelect (user_row alice_row) ''password'' = None
   \<and> dom (prisma_select userSelect (user_row alice_row)) = set userSelect
   \<and> prisma_select userSelect (user_row alice_row)
     = prisma_select userSelect (user_row (alice_row\<lparr>password := ''another''\<rparr>))"
proof -
  note reg = no_password_in_responses [of quiet_env empty_world alice
      "prisma_select userSelect (user_row alice_row)"]
  note rest = no_password_in_responses [of quiet_env alice_world alice u1
      alice_login "\<lparr>token = ''token-of-cku1'', user = prisma_select userSelect (user_row alice_row)\<rparr>"
      "''token-of-cku1''" "prisma_select userSelect (user_row alice_row)"
      "''cku1''" "prisma_select userSelect (user_row alice_row)"]
  have found: "user_findUnique_id alice_world ''cku1'' = Some alice_row"
    by (simp add: user_findUnique_id_def alice_world_def empty_world_def alice_row_def)
  from reg register_alice
  have a: "prisma_select userSelect (user_row alice_row) ''password'' = None
           \<and> dom (prisma_select userSelect (user_row alice_row)) = set userSelect"
    by blast
  from rest profile_alice found
  have b: "\<forall>p. prisma_select userSelect (user_row alice_row)
               = prisma_select userSelect (user_row (alice_row\<lparr>password := p\<rparr>))"
    by auto
  from a b register_alice login_alice verify_alice profile_alice show ?thesis by blast
qed

subsection \<open>The middleware\<close>

text \<open>
  Claim C6 asks that an expired token and a token with a bad signature get different
  messages under the same status 401. The code answers both alike: \<^verbatim>\<open>TokenExpiredError\<close>
  is a subclass of \<^verbatim>\<open>JsonWebTokenError\<close>, and both \<^verbatim>\<open>catch\<close> blocks test
  \<^verbatim>\<open>instanceof jwt.JsonWebTokenError\<close> first, so the branch written for the expired token
  is never reached. For every token that \<^verbatim>\<open>jwt.verify\<close> rejects as expired and every token
  it rejects as invalid, \<open>authenticateToken\<close> gives the same response and \<open>verifyToken\<close>
  the same error.
\<close>

theorem expired_token_reported_as_invalid:
  assumes "jwt_verify ev expired = Inl (TokenExpiredError m1)"
    and "jwt_verify ev forged = Inl (JsonWebTokenError m2)"
    and "expired \<noteq> []" and "forged \<noteq> []"
  shows "authenticateToken ev (Some (''Bearer '' @ expired))
           = Responded \<lparr>status = 401, res_error = ''Token invalido'',
                         res_message = ''Token JWT invalido ou malformado''\<rparr>
         \<and> authenticateToken ev (Some (''Bearer '' @ forged))
           = Responded \<lparr>status = 401, res_error = ''Token invalido'',
                         res_message = ''Token JWT invalido ou malformado''\<rparr>
         \<and> fst (verifyToken ev w expired) = Inl (AuthError ''Token invalido'' 401)
         \<and> fst (verifyToken ev w forged) = Inl (AuthError ''Token invalido'' 401)"
  using assms
  by (simp add: authenticateToken_def extract_token_def startsWith_def substring_def Let_def
      verifyToken_def verifyToken_try_def instanceof_JsonWebTokenError_def)

text \<open>The theorem on an environment whose \<^verbatim>\<open>jwt.verify\<close> rejects one token as expired and
  every unknown token as malformed.\<close>

theorem expired_token_reported_as_invalid_witness:
  "authenticateToken quiet_env (Some ''Bearer expired-token'')
     = Responded \<lparr>status = 401, res_error = ''Token invalido'',
                   res_message = ''Token JWT invalido ou malformado''\<rparr>
   \<and> authenticateToken quiet_env (Some ''Bearer forged-token'')
     = Responded \<lparr>status = 401, res_error = ''Token invalido'',
                   res_message = ''Token JWT invalido ou malformado''\<rparr>
   \<and> fst (verifyToken quiet_env alice_world ''expired-token'')
     = Inl (AuthError ''Token invalido'' 401)
   \<and> fst (verifyToken quiet_env alice_world ''forged-token'')
     = Inl (AuthError ''Token invalido'' 401)"
proof -
  have a: "jwt_verify quiet_env ''expired-token'' = Inl (TokenExpiredError ''jwt expired'')"
    by (simp add: quiet_env_def)
  have b: "jwt_verify quiet_env ''forged-token'' = Inl (JsonWebTokenError ''jwt malformed'')"
    by (simp add: quiet_env_def)
  from expired_token_reported_as_invalid [OF a b, of alice_world] show ?thesis by simp
qed

text \<open>
  Claim C10. A non-empty \<^verbatim>\<open>Authorization\<close> header that does not start with
  \<^verbatim>\<open>Bearer \<close> is taken whole as the token: both middlewares answer it exactly as they
  answer the same token sent behind the prefix, and when \<^verbatim>\<open>jwt.verify\<close> accepts it they
  call \<^verbatim>\<open>next()\<close> with the decoded payload attached.
\<close>

theorem bare_token_accepted:
  assumes "authHeader \<noteq> []" and "\<not> startsWith authHeader ''Bearer ''"
  shows "authenticateToken ev (Some authHeader)
           = authenticateToken ev (Some (''Bearer '' @ authHeader))
         \<and> optionalAuth ev (Some authHeader) = optionalAuth ev (Some (''Bearer '' @ authHeader))
         \<and> (\<forall>decoded. jwt_verify ev authHeader = Inr decoded \<longrightarrow>
               authenticateToken ev (Some authHeader) = Next (Some decoded)
               \<and> optionalAuth ev (Some authHeader) = Next (Some decoded))"
  using assms
  by (simp add: authenticateToken_def optionalAuth_def extract_token_def startsWith_def
      substring_def Let_def)

text \<open>The theorem on the token of \<open>alice\<close> sent without the prefix.\<close>

theorem bare_token_accepted_witness:
  "authenticateToken quiet_env (Some ''token-of-cku1'')
     = authenticateToken quiet_env (Some ''Bearer token-of-cku1'')
   \<and> optionalAuth quiet_env (Some ''token-of-cku1'')
     = optionalAuth quiet_env (Some ''Bearer token-of-cku1'')
   \<and> authenticateToken quiet_env (Some ''token-of-cku1'')
     = Next (Some [''id'' \<mapsto> JString ''cku1'', ''email'' \<mapsto> JString ''alice@example.com'',
                   ''username'' \<mapsto> JString ''alice''])
   \<and> optionalAuth quiet_env (Some ''token-of-cku1'')
     = Next (Some [''id'' \<mapsto> JString ''cku1'', ''email'' \<mapsto> JString ''alice@example.com'',
                   ''username'' \<mapsto> JString ''alice''])"
proof -
  have a: "''token-of-cku1'' \<noteq> []" by simp
  have b: "\<not> startsWith ''token-of-cku1'' ''Bearer ''" by (simp add: startsWith_def)
  have c: "jwt_verify quiet_env ''token-of-cku1''
           = Inr [''id'' \<mapsto> JString ''cku1'', ''email'' \<mapsto> JString ''alice@example.com'',
                  ''username'' \<mapsto> JString ''alice'']"
    by (simp add: quiet_env_def)
  note t = bare_token_accepted [OF a b, of quiet_env]
  from t c have d: "authenticateToken quiet_env (Some ''token-of-cku1'')
     = Next (Some [''id'' \<mapsto> JString ''cku1'', ''email'' \<mapsto> JString ''alice@example.com'',
                   ''username'' \<mapsto> JString ''alice''])
   \<and> optionalAuth quiet_env (Some ''token-of-cku1'')
     = Next (Some [''id'' \<mapsto> JString ''cku1'', ''email'' \<mapsto> JString ''alice@example.com'',
                   ''username'' \<mapsto> JString ''alice''])"
    by blast
  from t have e: "authenticateToken quiet_env (Some ''Bearer token-of-cku1'')
       = authenticateToken quiet_env (Some ''token-of-cku1'')
     \<and> optionalAuth quiet_env (Some ''Bearer token-of-cku1'')
       = optionalAuth quiet_env (Some ''token-of-cku1'')"
    by simp
  from d e show ?thesis by simp
qed

subsection \<open>Access to snippets\<close>

lemmas demo_defs = quiet_env_def plain_search_def snippet_world_def alice_world_def
  empty_world_def private_snippet_def public_snippet_def empty_query_def alice_row_def

lemma snippet_update_ok:
  "\<not> fails ev SnippetUpdate \<Longrightarrow> snippet_findUnique w i = Some s \<Longrightarrow>
   int32 (views (change (s\<lparr>updatedAt := now ev\<rparr>))) \<Longrightarrow>
     snippet_update ev w i change
     = Inr (w\<lparr>snippets :=
              map (\<lambda>t. if sid t = i then change (t\<lparr>updatedAt := now ev\<rparr>) else t)
                (snippets w)\<rparr>)"
  by (simp add: snippet_update_def)

lemma snippet_catch_accepted: "accepted (fst (snippet_catch l m r)) = accepted (fst r)"
  by (cases r) (auto simp: snippet_catch_def accepted_def split: sum.splits)

lemma snippet_catch_SnippetError:
  "fst r = Inl (SnippetError m' c) \<Longrightarrow> fst (snippet_catch l m r) = Inl (SnippetError m' c)"
  by (cases r) (auto simp: snippet_catch_def instanceof_SnippetError_def)

lemma snippet_increment_rejected:
  "snippet_findUnique w i = Some s \<Longrightarrow>
   fails ev SnippetUpdate \<or> \<not> int32 (views s + 1) \<Longrightarrow>
   \<exists>e. snippet_update ev w i (\<lambda>t. t\<lparr>views := views t + 1\<rparr>) = Inl e
       \<and> \<not> instanceof_SnippetError e"
  by (auto simp: snippet_update_def instanceof_SnippetError_def)

text \<open>
  Claim C2, as the code has it. For a snippet that exists (its author id is an id of the
  store, hence not empty) and a lookup that answers: \<open>getSnippetById\<close> succeeds only if the
  snippet is public or the caller is its author; it does succeed then when the caller is
  the author, or when the increment of the view counter goes through (the store call does
  not fail and the counter stays in its 32-bit column); when the increment is rejected the
  fetch throws the \<open>SnippetError\<close> of status 500; a caller who may not read gets the
  \<open>SnippetError\<close> of status 403. \<open>updateSnippet\<close> and \<open>deleteSnippet\<close> succeed only for the
  author and throw their 403 for every other caller, whatever \<open>isPublic\<close> is.
\<close>

theorem snippet_access_policy:
  assumes "\<not> fails ev SnippetFindUnique"
    and "snippet_findUnique w snippetId = Some s"
    and "authorId s \<noteq> []"
  shows "(accepted (fst (getSnippetById ev w snippetId userId)) \<longrightarrow> canRead s userId)
       \<and> (canRead s userId
            \<and> (userId = Some (authorId s)
                \<or> (\<not> fails ev SnippetUpdate \<and> int32 (views s + 1))) \<longrightarrow>
            accepted (fst (getSnippetById ev w snippetId userId)))
       \<and> (canRead s userId \<and> userId \<noteq> Some (authorId s)
            \<and> (fails ev SnippetUpdate \<or> \<not> int32 (views s + 1)) \<longrightarrow>
            fst (getSnippetById ev w snippetId userId)
            = Inl (SnippetError ''Erro interno ao buscar snippet'' 500))
       \<and> (\<not> canRead s userId \<longrightarrow>
            fst (getSnippetById ev w snippetId userId)
            = Inl (SnippetError ''Acesso negado ao snippet'' 403))
       \<and> (accepted (fst (updateSnippet ev w snippetId updateData caller)) \<longrightarrow> canWrite s caller)
       \<and> (\<not> canWrite s caller \<longrightarrow>
            fst (updateSnippet ev w snippetId updateData caller)
            = Inl (SnippetError ''Voce nao tem permissao para editar este snippet'' 403))
       \<and> (accepted (fst (deleteSnippet ev w snippetId caller)) \<longrightarrow> canWrite s caller)
       \<and> (\<not> canWrite s caller \<longrightarrow>
            fst (deleteSnippet ev w snippetId caller)
            = Inl (SnippetError ''Voce nao tem permissao para deletar este snippet'' 403))"
proof -
  have access: "(isPublic s \<or> (truthy userId \<and> Some (authorId s) = userId)) = canRead s userId"
    using assms(3) by (auto simp: canRead_def truthy_def)
  have denied: "\<not> canRead s userId \<Longrightarrow>
      getSnippetById_try ev w snippetId userId
      = (Inl (SnippetError ''Acesso negado ao snippet'' 403), w)"
    using assms(1,2) access by (simp add: getSnippetById_try_def)
  have g1: "accepted (fst (getSnippetById ev w snippetId userId)) \<longrightarrow> canRead s userId"
    unfolding getSnippetById_def snippet_catch_accepted
    using denied by (cases "canRead s userId") (simp_all add: accepted_def)
  have g2: "canRead s userId
            \<and> (userId = Some (authorId s)
                \<or> (\<not> fails ev SnippetUpdate \<and> int32 (views s + 1))) \<longrightarrow>
            accepted (fst (getSnippetById ev w snippetId userId))"
    unfolding getSnippetById_def snippet_catch_accepted
    using assms(1,2) access
    by (auto simp: getSnippetById_try_def snippet_update_ok accepted_def)
  have g3: "canRead s userId \<and> userId \<noteq> Some (authorId s)
            \<and> (fails ev SnippetUpdate \<or> \<not> int32 (views s + 1)) \<longrightarrow>
            fst (getSnippetById ev w snippetId userId)
            = Inl (SnippetError ''Erro interno ao buscar snippet'' 500)"
  proof (intro impI, elim conjE)
    assume r: "canRead s userId" and o: "userId \<noteq> Some (authorId s)"
      and f: "fails ev SnippetUpdate \<or> \<not> int32 (views s + 1)"
    from snippet_increment_rejected [OF assms(2) f]
    obtain e where e: "snippet_update ev w snippetId (\<lambda>t. t\<lparr>views := views t + 1\<rparr>) = Inl e"
      "\<not> instanceof_SnippetError e" by blast
    with assms(1,2) access r o
    have "getSnippetById_try ev w snippetId userId = (Inl e, w)"
      by (simp add: getSnippetById_try_def)
    with e(2) show "fst (getSnippetById ev w snippetId userId)
            = Inl (SnippetError ''Erro interno ao buscar snippet'' 500)"
      by (simp add: getSnippetById_def snippet_catch_def)
  qed
  have g4: "\<not> canRead s userId \<longrightarrow>
            fst (getSnippetById ev w snippetId userId)
            = Inl (SnippetError ''Acesso negado ao snippet'' 403)"
    using denied by (simp add: getSnippetById_def snippet_catch_SnippetError)
  have ud: "\<not> canWrite s caller \<Longrightarrow>
      updateSnippet_try ev w snippetId updateData caller
      = (Inl (SnippetError ''Voce nao tem permissao para editar este snippet'' 403), w)"
    using assms(1,2) by (simp add: updateSnippet_try_def canWrite_def)
  have u1: "accepted (fst (updateSnippet ev w snippetId updateData caller)) \<longrightarrow> canWrite s caller"
    unfolding updateSnippet_def snippet_catch_accepted
    using ud by (cases "canWrite s caller") (simp_all add: accepted_def)
  have u2: "\<not> canWrite s caller \<longrightarrow>
            fst (updateSnippet ev w snippetId updateData caller)
            = Inl (SnippetError ''Voce nao tem permissao para editar este snippet'' 403)"
    using ud by (simp add: updateSnippet_def snippet_catch_SnippetError)
  have dd: "\<not> canWrite s caller \<Longrightarrow>
      deleteSnippet_try ev w snippetId caller
      = (Inl (SnippetError ''Voce nao tem permissao para deletar este snippet'' 403), w)"
    using assms(1,2) by (simp add: deleteSnippet_try_def canWrite_def)
  have d1: "accepted (fst (deleteSnippet ev w snippetId caller)) \<longrightarrow> canWrite s caller"
    unfolding deleteSnippet_def snippet_catch_accepted
    using dd by (cases "canWrite s caller") (simp_all add: accepted_def)
  have d2: "\<not> canWrite s caller \<longrightarrow>
            fst (deleteSnippet ev w snippetId caller)
            = Inl (SnippetError ''Voce nao tem permissao para deletar este snippet'' 403)"
    using dd by (simp add: deleteSnippet_def snippet_catch_SnippetError)
  from g1 g2 g3 g4 u1 u2 d1 d2 show ?thesis by blast
qed

lemma find_private: "snippet_findUnique snippet_world ''cks1'' = Some private_snippet"
  by (simp add: snippet_findUnique_def demo_defs)

lemma find_public: "snippet_findUnique snippet_world ''cks2'' = Some public_snippet"
  by (simp add: snippet_findUnique_def demo_defs)

lemma find_viral: "snippet_findUnique viral_world ''cks3'' = Some viral_snippet"
  by (simp add: snippet_findUnique_def viral_world_def viral_snippet_def demo_defs)

lemma quiet_fails: "\<not> fails quiet_env c"
  by (simp add: quiet_env_def)

text \<open>The theorem on the two snippets, for the author, another user and an anonymous
  caller, and on the snippet whose counter is at its maximum.\<close>

theorem snippet_access_policy_witness:
  "accepted (fst (getSnippetById quiet_env snippet_world ''cks1'' (Some ''cku1'')))
   \<and> accepted (fst (getSnippetById quiet_env snippet_world ''cks2'' None))
   \<and> fst (getSnippetById quiet_env viral_world ''cks3'' None)
     = Inl (SnippetError ''Erro interno ao buscar snippet'' 500)
   \<and> fst (getSnippetById quiet_env snippet_world ''cks1'' (Some ''cku2''))
     = Inl (SnippetError ''Acesso negado ao snippet'' 403)
   \<and> fst (getSnippetById quiet_env snippet_world ''cks1'' None)
     = Inl (SnippetError ''Acesso negado ao snippet'' 403)
   \<and> fst (updateSnippet quiet_env snippet_world ''cks2'' rename_update ''cku2'')
     = Inl (SnippetError ''Voce nao tem permissao para editar este snippet'' 403)
   \<and> fst (deleteSnippet quiet_env snippet_world ''cks2'' ''cku2'')
     = Inl (SnippetError ''Voce nao tem permissao para deletar este snippet'' 403)"
proof -
  have a1: "authorId private_snippet \<noteq> []" and a2: "authorId public_snippet \<noteq> []"
    and a3: "authorId viral_snippet \<noteq> []"
    by (simp_all add: private_snippet_def public_snippet_def viral_snippet_def)
  note priv = snippet_access_policy [OF quiet_fails find_private a1]
  note pub = snippet_access_policy [OF quiet_fails find_public a2]
  note viral = snippet_access_policy [OF quiet_fails find_viral a3]
  have r1: "canRead private_snippet (Some ''cku1'')"
    and o1: "Some ''cku1'' = Some (authorId private_snippet)"
    and r2: "canRead public_snippet None"
    and v2: "int32 (views public_snippet + 1)"
    and r3: "\<not> canRead private_snippet (Some ''cku2'')"
    and r4: "\<not> canRead private_snippet None"
    and r5: "\<not> canWrite public_snippet ''cku2''"
    and r6: "canRead viral_snippet None"
    and o6: "None \<noteq> Some (authorId viral_snippet)"
    and v6: "\<not> int32 (views viral_snippet + 1)"
    by (simp_all add: canRead_def canWrite_def private_snippet_def public_snippet_def
        viral_snippet_def int32_def)
  from priv [of "Some ''cku1''"] r1 o1
  have c1: "accepted (fst (getSnippetById quiet_env snippet_world ''cks1'' (Some ''cku1'')))"
    by blast
  from pub [of None] r2 v2 quiet_fails
  have c2: "accepted (fst (getSnippetById quiet_env snippet_world ''cks2'' None))"
    by blast
  from viral [of None] r6 o6 v6
  have c7: "fst (getSnippetById quiet_env viral_world ''cks3'' None)
     = Inl (SnippetError ''Erro interno ao buscar snippet'' 500)"
    by blast
  from priv [of "Some ''cku2''"] r3
  have c3: "fst (getSnippetById quiet_env snippet_world ''cks1'' (Some ''cku2''))
     = Inl (SnippetError ''Acesso negado ao snippet'' 403)"
    by blast
  from priv [of None] r4
  have c4: "fst (getSnippetById quiet_env snippet_world ''cks1'' None)
     = Inl (SnippetError ''Acesso negado ao snippet'' 403)"
    by blast
  from pub [of None rename_update "''cku2''"] r5
  have c5: "fst (updateSnippet quiet_env snippet_world ''cks2'' rename_update ''cku2'')
     = Inl (SnippetError ''Voce nao tem permissao para editar este snippet'' 403)"
    and c6: "fst (deleteSnippet quiet_env snippet_world ''cks2'' ''cku2'')
     = Inl (SnippetError ''Voce nao tem permissao para deletar este snippet'' 403)"
    by blast+
  from c1 c2 c3 c4 c5 c6 c7 show ?thesis by blast
qed

text \<open>Claim C2 as stated fails: the snippet is public, so every caller may read it, and no
  store call fails for an outside reason; yet the anonymous fetch does not succeed, because
  the view counter stands at 2147483647 and the store rejects the increment.\<close>

theorem fetch_counter_overflow_counterexample:
  "snippet_findUnique viral_world ''cks3'' = Some viral_snippet
   \<and> isPublic viral_snippet
   \<and> canRead viral_snippet None
   \<and> views viral_snippet = 2147483647
   \<and> \<not> accepted (fst (getSnippetById quiet_env viral_world ''cks3'' None))
   \<and> fst (getSnippetById quiet_env viral_world ''cks3'' None)
     = Inl (SnippetError ''Erro interno ao buscar snippet'' 500)"
  by (simp add: getSnippetById_def getSnippetById_try_def snippet_catch_def
      snippet_update_def snippet_findUnique_def truthy_def int32_def canRead_def accepted_def
      instanceof_SnippetError_def viral_world_def viral_snippet_def demo_defs)

lemma snippet_catch_Inr:
  "fst (snippet_catch l m r) = Inr v \<Longrightarrow> r = (Inr v, snd (snippet_catch l m r))"
  by (cases r) (auto simp: snippet_catch_def split: sum.splits if_splits)

text \<open>
  Claim C9, as the code has it. A successful fetch by a caller who is not the author
  (an anonymous caller included) adds exactly 1 to the stored view counter of the snippet
  and sets its \<^verbatim>\<open>updatedAt\<close> column to the time of the update; no other column of the
  snippet, no other snippet and no other table changes. A successful fetch by the author
  leaves the store as it was.
\<close>

theorem fetch_counts_view:
  assumes "fst (getSnippetById ev w snippetId userId) = Inr returned"
  shows "\<exists>s. snippet_findUnique w snippetId = Some s
     \<and> (userId \<noteq> Some (authorId s) \<longrightarrow>
          snd (getSnippetById ev w snippetId userId)
          = w\<lparr>snippets :=
                map (\<lambda>t. if sid t = snippetId
                          then t\<lparr>views := views t + 1, updatedAt := now ev\<rparr> else t)
                  (snippets w)\<rparr>
          \<and> returned = s\<lparr>views := views s + 1\<rparr>)
     \<and> (userId = Some (authorId s) \<longrightarrow>
          snd (getSnippetById ev w snippetId userId) = w \<and> returned = s)"
proof -
  obtain w' where w': "snd (getSnippetById ev w snippetId userId) = w'" by simp
  from assms have "getSnippetById_try ev w snippetId userId
                   = (Inr returned, snd (getSnippetById ev w snippetId userId))"
    unfolding getSnippetById_def by (rule snippet_catch_Inr)
  with w' have body: "getSnippetById_try ev w snippetId userId = (Inr returned, w')" by simp
  then obtain s where s: "snippet_findUnique w snippetId = Some s"
    by (auto simp: getSnippetById_try_def split: if_splits option.splits)
  have owner: "userId = Some (authorId s) \<longrightarrow> w' = w \<and> returned = s"
    using body s by (auto simp: getSnippetById_try_def Let_def split: if_splits)
  have other: "userId \<noteq> Some (authorId s) \<longrightarrow>
          w' = w\<lparr>snippets :=
                map (\<lambda>t. if sid t = snippetId
                          then t\<lparr>views := views t + 1, updatedAt := now ev\<rparr> else t)
                  (snippets w)\<rparr>
          \<and> returned = s\<lparr>views := views s + 1\<rparr>"
    using body s
    by (auto simp: getSnippetById_try_def Let_def snippet_update_def
        split: if_splits sum.splits)
  show ?thesis unfolding w' using s owner other by blast
qed

lemma fetch_public_anonymous:
  "fst (getSnippetById quiet_env snippet_world ''cks2'' None)
   = Inr (public_snippet\<lparr>views := 8\<rparr>)"
  by (simp add: getSnippetById_def getSnippetById_try_def snippet_catch_def
      snippet_update_def snippet_findUnique_def truthy_def int32_def demo_defs)

lemma fetch_public_owner:
  "fst (getSnippetById quiet_env snippet_world ''cks2'' (Some ''cku1'')) = Inr public_snippet"
  by (simp add: getSnippetById_def getSnippetById_try_def snippet_catch_def
      snippet_update_def snippet_findUnique_def truthy_def int32_def demo_defs)

text \<open>The theorem on the public snippet, fetched anonymously and by its author.\<close>

theorem fetch_counts_view_witness:
  "snd (getSnippetById quiet_env snippet_world ''cks2'' None)
     = snippet_world\<lparr>snippets :=
         [private_snippet, public_snippet\<lparr>views := 8, updatedAt := 1000\<rparr>]\<rparr>
   \<and> snd (getSnippetById quiet_env snippet_world ''cks2'' (Some ''cku1'')) = snippet_world"
proof -
  from fetch_counts_view [OF fetch_public_anonymous] find_public
  have a: "snd (getSnippetById quiet_env snippet_world ''cks2'' None)
     = snippet_world\<lparr>snippets :=
          map (\<lambda>t. if sid t = ''cks2''
                    then t\<lparr>views := views t + 1, updatedAt := now quiet_env\<rparr> else t)
            (snippets snippet_world)\<rparr>"
    by (auto simp: public_snippet_def)
  from fetch_counts_view [OF fetch_public_owner] find_public
  have b: "snd (getSnippetById quiet_env snippet_world ''cks2'' (Some ''cku1'')) = snippet_world"
    by (auto simp: public_snippet_def)
  from a b show ?thesis by (simp add: demo_defs)
qed

text \<open>Claim C9 as stated fails: the anonymous fetch of the public snippet succeeds and the
  stored row differs from the old one in \<^verbatim>\<open>updatedAt\<close> (600 before, 1000 after) as well as
  in \<^verbatim>\<open>views\<close>.\<close>

theorem fetch_changes_updatedAt_counterexample:
  "fst (getSnippetById quiet_env snippet_world ''cks2'' None)
     = Inr (public_snippet\<lparr>views := 8\<rparr>)
   \<and> snippet_findUnique snippet_world ''cks2'' = Some public_snippet
   \<and> snippet_findUnique (snd (getSnippetById quiet_env snippet_world ''cks2'' None)) ''cks2''
     = Some (public_snippet\<lparr>views := 8, updatedAt := 1000\<rparr>)
   \<and> updatedAt public_snippet = 600"
  by (simp add: getSnippetById_def getSnippetById_try_def snippet_catch_def
      snippet_update_def snippet_findUnique_def truthy_def int32_def demo_defs)

text \<open>
  Claim C1 asks that the listing never returns a private snippet of another author. The
  code returns one in two ways. With a search term the three \<^verbatim>\<open>contains\<close> filters are
  appended to the same \<^verbatim>\<open>OR\<close> list as the visibility filters, so a private snippet whose
  title, description or content contains the term matches for every logged-in caller; and
  an explicit \<^verbatim>\<open>isPublic=false\<close> replaces the visibility filter altogether. Here the
  caller \<open>cku2\<close> is not the author \<open>cku1\<close> of the private snippet.
\<close>

theorem listing_leaks_private_snippet:
  "fst (getSnippetsWithPagination quiet_env plain_search snippet_world
          (empty_query\<lparr>q_search := Some ''keys''\<rparr>) (Some ''cku2''))
   = Inr \<lparr>result_snippets = [public_snippet, private_snippet],
           result_pagination = \<lparr>currentPage = 1, totalPages = Some 1, totalCount = 2,
             hasNextPage = False, hasPrevPage = False, limit = 20\<rparr>\<rparr>
   \<and> fst (getSnippetsWithPagination quiet_env plain_search snippet_world
          (empty_query\<lparr>q_isPublic := Some False\<rparr>) (Some ''cku2''))
   = Inr \<lparr>result_snippets = [private_snippet],
           result_pagination = \<lparr>currentPage = 1, totalPages = Some 1, totalCount = 1,
             hasNextPage = False, hasPrevPage = False, limit = 20\<rparr>\<rparr>
   \<and> \<not> isPublic private_snippet \<and> authorId private_snippet \<noteq> ''cku2''"
  by (simp add: getSnippetsWithPagination_def build_where_def matches_def filter_holds_def
      opt_holds_def or_keep_def orderBy_of_def order_rows_def row_le_def truthy_def
      empty_where_def demo_defs Let_def toLowerCase_def toLowerCase_char_def code_unit_def)

subsection \<open>Further properties of the listing, the registration and the middleware\<close>

lemma set_insert_by: "set (insert_by le x ys) = insert x (set ys)"
  by (induction ys) auto

lemma set_foldr_insert_by: "set (foldr (insert_by le) rows []) = set rows"
  by (induction rows) (simp_all add: set_insert_by)

lemma set_order_rows: "set (order_rows se ob rows) = set rows"
  by (cases ob) (simp add: order_rows_def set_foldr_insert_by split: sort_order.splits)

lemma build_where_visibility:
  assumes "q_isPublic query = None" and "\<not> truthy (q_search query)"
  shows "(where_isPublic (build_where query userId) = Some True
            \<and> where_OR (build_where query userId) = None \<and> \<not> truthy userId)
         \<or> (\<exists>u. userId = Some u \<and> u \<noteq> []
               \<and> where_OR (build_where query userId) = Some [IsPublic True, AuthorId u])"
proof (cases "truthy userId")
  case True
  then obtain u where "userId = Some u" "u \<noteq> []"
    by (auto simp: truthy_def split: option.splits)
  with assms show ?thesis
    by (simp add: build_where_def Let_def truthy_def empty_where_def split: option.splits)
next
  case False
  with assms show ?thesis
    by (simp add: build_where_def Let_def truthy_def empty_where_def split: option.splits)
qed

lemma build_where_visible:
  assumes "q_isPublic query = None" and "\<not> truthy (q_search query)"
    and "matches se (build_where query userId) s"
  shows "canRead s userId"
  using build_where_visibility [OF assms(1,2), of userId] assms(3)
  by (auto simp: matches_def opt_holds_def filter_holds_def canRead_def)

text \<open>
  Without a search term and without an explicit \<^verbatim>\<open>isPublic\<close> in the query, every snippet
  of the listing is public or authored by the caller (for an anonymous caller: public).
\<close>

theorem listing_without_search_is_visible:
  assumes "q_isPublic query = None" and "\<not> truthy (q_search query)"
    and "fst (getSnippetsWithPagination ev se w query userId) = Inr r"
  shows "list_all (\<lambda>s. canRead s userId) (result_snippets r)"
proof -
  from assms(3) have
    "set (result_snippets r) \<subseteq> set (filter (matches se (build_where query userId)) (snippets w))"
    by (auto simp: getSnippetsWithPagination_def Let_def set_order_rows
        split: if_splits dest!: in_set_takeD in_set_dropD)
  then show ?thesis
    using build_where_visible [OF assms(1,2)] by (auto simp: list_all_iff)
qed

text \<open>The theorem on the listing of the two snippets for the caller \<open>cku2\<close>.\<close>

theorem listing_without_search_is_visible_witness:
  "list_all (\<lambda>s. canRead s (Some ''cku2''))
     (result_snippets
        \<lparr>result_snippets = [public_snippet],
          result_pagination = \<lparr>currentPage = 1, totalPages = Some 1, totalCount = 1,
             hasNextPage = False, hasPrevPage = False, limit = 20\<rparr>\<rparr>)"
proof -
  have a: "q_isPublic empty_query = None" "\<not> truthy (q_search empty_query)"
    by (simp_all add: empty_query_def truthy_def)
  have b: "fst (getSnippetsWithPagination quiet_env plain_search snippet_world empty_query
                  (Some ''cku2''))
           = Inr \<lparr>result_snippets = [public_snippet],
          result_pagination = \<lparr>currentPage = 1, totalPages = Some 1, totalCount = 1,
             hasNextPage = False, hasPrevPage = False, limit = 20\<rparr>\<rparr>"
    by (simp add: getSnippetsWithPagination_def build_where_def matches_def filter_holds_def
      opt_holds_def or_keep_def orderBy_of_def order_rows_def row_le_def truthy_def
      empty_where_def demo_defs Let_def)
  from listing_without_search_is_visible [OF a b] show ?thesis .
qed

lemma find_map_uid:
  "find (\<lambda>u. uid u = i) (map (\<lambda>u. if uid u = j then f u else u) us) \<noteq> None"
  if "find (\<lambda>u. uid u = i) us \<noteq> None" and "\<And>u. uid (f u) = uid u"
  using that by (induction us) (auto split: if_splits)

lemma awardWelcomeBadge_users: "users (awardWelcomeBadge ev w i) = users w"
  by (auto simp: awardWelcomeBadge_def log_def userBadge_create_def
      split: option.splits sum.splits if_splits)

lemma welcome_bonus_fails:
  assumes "fails ev PointTransactionCreate \<or> fails ev UserUpdate"
  shows "fst (welcome_bonus ev w i) = Some StoreFailure"
  using assms
  by (auto simp: welcome_bonus_def pointTransaction_create_def user_update_points_def
      split: prod.splits sum.splits option.splits if_splits)

lemma welcome_bonus_keeps_user:
  assumes "user_findUnique_id w i \<noteq> None"
  shows "user_findUnique_id (snd (welcome_bonus ev w j)) i \<noteq> None"
proof -
  have "users (snd (welcome_bonus ev w j)) = users w
        \<or> users (snd (welcome_bonus ev w j))
           = map (\<lambda>u. if uid u = j then u\<lparr>points := points u + 10, user_updatedAt := now ev\<rparr>
                       else u) (users w)"
    by (auto simp: welcome_bonus_def pointTransaction_create_def user_update_points_def
        awardWelcomeBadge_users split: prod.splits sum.splits option.splits if_splits)
  then show ?thesis
    using assms find_map_uid [of i "users w" "\<lambda>u. u\<lparr>points := points u + 10, user_updatedAt := now ev\<rparr>" j]
    by (auto simp: user_findUnique_id_def)
qed

text \<open>
  When both uniqueness checks pass and the identity is inserted, a failure of the insert
  of the point transaction or of the increment of the points makes \<open>registerUser\<close> throw
  its \<open>AuthError\<close> of status 500, and the identity stays in the store.
\<close>

theorem registerUser_bonus_failure:
  assumes "\<not> fails ev UserFindUniqueByEmail"
    and "user_findUnique_email w (ri_email userData) = None"
    and "\<not> fails ev UserFindUniqueByUsername"
    and "user_findUnique_username w (ri_username userData) = None"
    and "user_create ev (w\<lparr>users := users w @ concurrent_users ev\<rparr>) (ri_email userData)
           (ri_username userData) (bcrypt_hash ev (ri_password userData) 12)
           (or_null (ri_firstName userData)) (or_null (ri_lastName userData))
         = Inr (created, w2)"
    and "fails ev PointTransactionCreate \<or> fails ev UserUpdate"
  shows "fst (registerUser ev w userData)
           = Inl (AuthError ''Erro interno do servidor ao registrar usuario'' 500)
         \<and> user_findUnique_id (snd (registerUser ev w userData)) (uid created) \<noteq> None"
proof -
  obtain w3 where w3: "welcome_bonus ev w2 (uid created) = (Some StoreFailure, w3)"
    using welcome_bonus_fails [OF assms(6), of w2 "uid created"]
    by (cases "welcome_bonus ev w2 (uid created)") auto
  have "user_findUnique_id w2 (uid created) \<noteq> None"
    using user_create_found(1) [OF assms(5)] by simp
  from welcome_bonus_keeps_user [OF this, of ev "uid created"] w3
  have kept: "user_findUnique_id w3 (uid created) \<noteq> None" by simp
  have "registerUser_try ev w userData = (Inl StoreFailure, w3)"
    using assms(1-5) w3 by (simp add: registerUser_try_def Let_def)
  then have "registerUser ev w userData
      = (Inl (AuthError ''Erro interno do servidor ao registrar usuario'' 500),
         log ''Error registering user:'' w3)"
    by (simp add: registerUser_def instanceof_AuthError_def)
  with kept show ?thesis by (simp add: log_def user_findUnique_id_def)
qed

text \<open>The theorem on the empty store, with the insert of the point transaction failing.\<close>

theorem registerUser_bonus_failure_witness:
  "fst (registerUser bonus_down_env empty_world alice)
     = Inl (AuthError ''Erro interno do servidor ao registrar usuario'' 500)
   \<and> user_findUnique_id (snd (registerUser bonus_down_env empty_world alice)) (uid alice_row)
     \<noteq> None"
proof -
  have c: "user_create bonus_down_env
             (empty_world\<lparr>users := users empty_world @ concurrent_users bonus_down_env\<rparr>)
             (ri_email alice) (ri_username alice)
             (bcrypt_hash bonus_down_env (ri_password alice) 12)
             (or_null (ri_firstName alice)) (or_null (ri_lastName alice))
           = Inr (alice_row, empty_world\<lparr>users := [alice_row]\<rparr>)"
    by (simp add: user_create_def bonus_down_env_def quiet_env_def empty_world_def alice_def
        alice_row_def or_null_def user_findUnique_id_def user_findUnique_email_def
        user_findUnique_username_def Let_def)
  have f: "\<not> fails bonus_down_env UserFindUniqueByEmail"
    "\<not> fails bonus_down_env UserFindUniqueByUsername"
    "fails bonus_down_env PointTransactionCreate \<or> fails bonus_down_env UserUpdate"
    by (simp_all add: bonus_down_env_def)
  have e: "user_findUnique_email empty_world (ri_email alice) = None"
    "user_findUnique_username empty_world (ri_username alice) = None"
    by (simp_all add: user_findUnique_email_def user_findUnique_username_def empty_world_def)
  from registerUser_bonus_failure [OF f(1) e(1) f(2) e(2) c f(3)] show ?thesis .
qed

text \<open>
  A registration whose email is already in the store is refused with status 409 and the
  message for the email; one whose email is new and whose username is taken, with status
  409 and the message for the username. The store is left as it was.
\<close>

theorem registerUser_duplicate:
  "(\<not> fails ev UserFindUniqueByEmail \<and> user_findUnique_email w (ri_email userData) = Some u
      \<longrightarrow> registerUser ev w userData
          = (Inl (AuthError ''Usuario com este email ja existe'' 409), w))
   \<and> (\<not> fails ev UserFindUniqueByEmail \<and> user_findUnique_email w (ri_email userData) = None
       \<and> \<not> fails ev UserFindUniqueByUsername
       \<and> user_findUnique_username w (ri_username userData) = Some u
      \<longrightarrow> registerUser ev w userData
          = (Inl (AuthError ''Nome de usuario ja esta em uso'' 409), w))"
  by (simp add: registerUser_def registerUser_try_def instanceof_AuthError_def)

text \<open>The theorem on the store that holds \<open>alice\<close>: the same email again, and the same
  username under another email.\<close>

theorem registerUser_duplicate_witness:
  "registerUser quiet_env alice_world alice
     = (Inl (AuthError ''Usuario com este email ja existe'' 409), alice_world)
   \<and> registerUser quiet_env alice_world (alice\<lparr>ri_email := ''alice@example.org''\<rparr>)
     = (Inl (AuthError ''Nome de usuario ja esta em uso'' 409), alice_world)"
proof -
  have a: "user_findUnique_email alice_world (ri_email alice) = Some alice_row"
    by (simp add: user_findUnique_email_def alice_world_def empty_world_def alice_def
        alice_row_def)
  have b: "user_findUnique_email alice_world
             (ri_email (alice\<lparr>ri_email := ''alice@example.org''\<rparr>)) = None"
    "user_findUnique_username alice_world
       (ri_username (alice\<lparr>ri_email := ''alice@example.org''\<rparr>)) = Some alice_row"
    by (simp_all add: user_findUnique_email_def user_findUnique_username_def alice_world_def
        empty_world_def alice_def alice_row_def)
  from registerUser_duplicate [of quiet_env alice_world alice alice_row] a quiet_fails
  have c: "registerUser quiet_env alice_world alice
     = (Inl (AuthError ''Usuario com este email ja existe'' 409), alice_world)"
    by blast
  from registerUser_duplicate
         [of quiet_env alice_world "alice\<lparr>ri_email := ''alice@example.org''\<rparr>" alice_row]
       b quiet_fails
  have d: "registerUser quiet_env alice_world (alice\<lparr>ri_email := ''alice@example.org''\<rparr>)
     = (Inl (AuthError ''Nome de usuario ja esta em uso'' 409), alice_world)"
    by blast
  from c d show ?thesis by blast
qed

text \<open>The optional middleware never answers the request itself: whatever the header and
  whatever \<^verbatim>\<open>jwt.verify\<close> does with it, \<^verbatim>\<open>next()\<close> is called.\<close>

theorem optionalAuth_continues:
  "\<exists>attached. optionalAuth ev authorization = Next attached"
  by (simp add: optionalAuth_def Let_def split: option.splits sum.splits)

end
